theory Spec2Isabelle
  imports Complex_Main "HOL-Library.Log_Nat"
begin

section \<open>JavaScript values and strings\<close>

text \<open>
  The data-access layer (\<^verbatim>\<open>firebase.ts\<close>) is TypeScript. Strings are lists of
  characters; a character is a code unit in the Latin-1 range. Numbers are the finite
  values (every finite double is a rational), the two infinities and NaN. The
  validator \<^verbatim>\<open>validateRequired\<close> takes \<^verbatim>\<open>any\<close>, so the values it can see are
  modelled by a datatype with one constructor per runtime type.
\<close>

datatype number = Fin rat | PosInf | NegInf | NaN

datatype jsval =
    JUndefined
  | JNull
  | JBool bool
  | JNum number
  | JStr string
  | JArr "jsval list"
  | JObj "(string \<times> jsval) list"

text \<open>\<^verbatim>\<open>x >= 0\<close> and \<open>x < 0\<close> on numbers: every comparison with NaN is false.\<close>

fun geZero :: "number \<Rightarrow> bool" where
  "geZero (Fin r) = (r \<ge> 0)"
| "geZero PosInf = True"
| "geZero NegInf = False"
| "geZero NaN = False"

fun ltZero :: "number \<Rightarrow> bool" where
  "ltZero (Fin r) = (r < 0)"
| "ltZero PosInf = False"
| "ltZero NegInf = True"
| "ltZero NaN = False"

text \<open>
  The characters \<^verbatim>\<open>String.prototype.trim\<close> strips and the class \<^verbatim>\<open>\s\<close> matches
  (white space and line terminators), in the Latin-1 range: TAB, LF, VT, FF, CR,
  SPACE and NBSP.
\<close>

definition isWhiteSpace :: "char \<Rightarrow> bool" where
  "isWhiteSpace c =
     (c \<in> set [CHR 0x09, CHR 0x0A, CHR 0x0B, CHR 0x0C, CHR 0x0D, CHR 0x20, CHR 0xA0])"

definition trim :: "string \<Rightarrow> string" where
  "trim s = rev (dropWhile isWhiteSpace (rev (dropWhile isWhiteSpace s)))"

text \<open>\<^verbatim>\<open>xs.join(sep)\<close>.\<close>

fun join :: "string \<Rightarrow> string list \<Rightarrow> string" where
  "join sep [] = []"
| "join sep [x] = x"
| "join sep (x # y # ys) = x @ sep @ join sep (y # ys)"

text \<open>\<^verbatim>\<open>typeof v\<close>, \<^verbatim>\<open>Array.isArray(v)\<close> and the truthiness a condition tests.\<close>

fun typeOf :: "jsval \<Rightarrow> string" where
  "typeOf JUndefined = ''undefined''"
| "typeOf JNull = ''object''"
| "typeOf (JBool b) = ''boolean''"
| "typeOf (JNum n) = ''number''"
| "typeOf (JStr s) = ''string''"
| "typeOf (JArr xs) = ''object''"
| "typeOf (JObj kvs) = ''object''"

fun isArray :: "jsval \<Rightarrow> bool" where
  "isArray (JArr xs) = True"
| "isArray v = False"

fun truthy :: "jsval \<Rightarrow> bool" where
  "truthy JUndefined = False"
| "truthy JNull = False"
| "truthy (JBool b) = b"
| "truthy (JNum n) = (n \<noteq> Fin 0 \<and> n \<noteq> NaN)"
| "truthy (JStr s) = (s \<noteq> [])"
| "truthy (JArr xs) = True"
| "truthy (JObj kvs) = True"

section \<open>Regular expressions\<close>

text \<open>
  \<^verbatim>\<open>RegExp.prototype.test\<close> on a pattern anchored at both ends (\<^verbatim>\<open>^...$\<close>, no
  flags) accepts a string iff the whole string is in the language of the pattern.
  The matcher consumes the string one character at a time, rewriting the pattern to
  what may still follow.
\<close>

datatype regex =
    RNone
  | REps
  | RClass "char \<Rightarrow> bool"
  | RSeq regex regex
  | RAlt regex regex
  | RStar regex

definition RChar :: "char \<Rightarrow> regex" where
  "RChar c = RClass (\<lambda>x. x = c)"

definition RPlus :: "regex \<Rightarrow> regex" where
  "RPlus r = RSeq r (RStar r)"

fun acceptsEmpty :: "regex \<Rightarrow> bool" where
  "acceptsEmpty RNone = False"
| "acceptsEmpty REps = True"
| "acceptsEmpty (RClass P) = False"
| "acceptsEmpty (RSeq r s) = (acceptsEmpty r \<and> acceptsEmpty s)"
| "acceptsEmpty (RAlt r s) = (acceptsEmpty r \<or> acceptsEmpty s)"
| "acceptsEmpty (RStar r) = True"

fun consume :: "char \<Rightarrow> regex \<Rightarrow> regex" where
  "consume c RNone = RNone"
| "consume c REps = RNone"
| "consume c (RClass P) = (if P c then REps else RNone)"
| "consume c (RSeq r s) =
     (if acceptsEmpty r then RAlt (RSeq (consume c r) s) (consume c s)
      else RSeq (consume c r) s)"
| "consume c (RAlt r s) = RAlt (consume c r) (consume c s)"
| "consume c (RStar r) = RSeq (consume c r) (RStar r)"

fun test :: "regex \<Rightarrow> string \<Rightarrow> bool" where
  "test r [] = acceptsEmpty r"
| "test r (c # cs) = test (consume c r) cs"

text \<open>The language of a pattern, as a set of strings (used to state what \<open>test\<close> decides).\<close>

inductive_set star :: "string set \<Rightarrow> string set" for A :: "string set" where
  star_empty: "[] \<in> star A"
| star_more: "u \<in> A \<Longrightarrow> v \<in> star A \<Longrightarrow> u @ v \<in> star A"

fun lang :: "regex \<Rightarrow> string set" where
  "lang RNone = {}"
| "lang REps = {[]}"
| "lang (RClass P) = {[c] | c. P c}"
| "lang (RSeq r s) = {u @ v | u v. u \<in> lang r \<and> v \<in> lang s}"
| "lang (RAlt r s) = lang r \<union> lang s"
| "lang (RStar r) = star (lang r)"

section \<open>Validation functions\<close>

text \<open>
  \<^verbatim>\<open>
  const validateEmail = (email: string): boolean => {
    const emailRegex = /^[^\s@]+@[^\s@]+\.[^\s@]+$/;
    return emailRegex.test(email);
  };
  \<close>
  The class \<^verbatim>\<open>[^\s@]\<close> is \<open>notSpaceAt\<close>.
\<close>

definition notSpaceAt :: "char \<Rightarrow> bool" where
  "notSpaceAt c = (\<not> isWhiteSpace c \<and> c \<noteq> CHR ''@'')"

definition emailRegex :: regex where
  "emailRegex =
     RSeq (RPlus (RClass notSpaceAt))
       (RSeq (RChar CHR ''@'')
         (RSeq (RPlus (RClass notSpaceAt))
           (RSeq (RChar CHR ''.'') (RPlus (RClass notSpaceAt)))))"

definition validateEmail :: "string \<Rightarrow> bool" where
  "validateEmail email = test emailRegex email"

text \<open>
  The shape \<^verbatim>\<open>user@domain.tld\<close> in the specification's words: three non-empty parts
  free of white space and of \<^verbatim>\<open>@\<close>, joined by \<^verbatim>\<open>@\<close> and a dot.
\<close>

definition emailShape :: "string \<Rightarrow> bool" where
  "emailShape s \<longleftrightarrow>
     (\<exists>user domain tld.
        s = user @ ''@'' @ domain @ ''.'' @ tld \<and>
        user \<noteq> [] \<and> domain \<noteq> [] \<and> tld \<noteq> [] \<and>
        list_all notSpaceAt user \<and> list_all notSpaceAt domain \<and> list_all notSpaceAt tld)"

text \<open>
  \<^verbatim>\<open>
  const validatePositiveNumber = (value: number): boolean => {
    return typeof value === 'number' && value >= 0;
  };
  const validateRequired = (value: any): boolean => {
    if (value === undefined || value === null) return false;
    if (typeof value === 'string') return value.trim().length > 0;
    return true;
  };
  \<close>
\<close>

definition validatePositiveNumber :: "jsval \<Rightarrow> bool" where
  "validatePositiveNumber v =
     (typeOf v = ''number'' \<and> (case v of JNum n \<Rightarrow> geZero n | _ \<Rightarrow> False))"

definition validateRequired :: "jsval \<Rightarrow> bool" where
  "validateRequired v =
     (if v = JUndefined \<or> v = JNull then False
      else if typeOf v = ''string'' then (case v of JStr s \<Rightarrow> length (trim s) > 0 | _ \<Rightarrow> True)
      else True)"

section \<open>Entities and their validators\<close>

text \<open>
  Each TypeScript interface is a record with the interface's field names; a field
  marked optional (\<^verbatim>\<open>?\<close>) is an option. Field names shared by several interfaces
  are written qualified (\<open>Customer.name\<close>, \<open>Product.name\<close>). A \<^verbatim>\<open>Timestamp\<close> is
  the server's clock reading. A validator returns \<^verbatim>\<open>{ valid, errors }\<close>.
\<close>

type_synonym Timestamp = nat

record ValidationResult =
  valid :: bool
  errors :: "string list"

text \<open>\<^verbatim>\<open>if (cond) errors.push(msg)\<close>.\<close>

definition pushIf :: "bool \<Rightarrow> string \<Rightarrow> string list \<Rightarrow> string list" where
  "pushIf cond msg errs = (if cond then errs @ [msg] else errs)"

subsection \<open>Customer\<close>

record Customer =
  name :: string
  phone :: string
  email :: string
  address :: string
  createdAt :: "Timestamp option"
  updatedAt :: "Timestamp option"

text \<open>
  \<^verbatim>\<open>
  const validateCustomer = (customer: Customer) => {
    const errors: string[] = [];
    if (!validateRequired(customer.name)) errors.push('Name is required');
    if (!validateRequired(customer.phone)) errors.push('Phone is required');
    if (customer.email && !validateEmail(customer.email)) {
      errors.push('Email format is invalid');
    }
    return { valid: errors.length === 0, errors };
  };
  \<close>
\<close>

definition validateCustomer :: "Customer \<Rightarrow> ValidationResult" where
  "validateCustomer customer =
     (let errs = [];
          errs = pushIf (\<not> validateRequired (JStr (Customer.name customer))) ''Name is required'' errs;
          errs = pushIf (\<not> validateRequired (JStr (Customer.phone customer))) ''Phone is required'' errs;
          errs = pushIf (truthy (JStr (Customer.email customer)) \<and> \<not> validateEmail (Customer.email customer))
                   ''Email format is invalid'' errs
      in \<lparr> valid = (length errs = 0), errors = errs \<rparr>)"

subsection \<open>Repair\<close>

text \<open>
  The interface declares \<^verbatim>\<open>status: 'pending' | 'in-progress' | 'completed'\<close>; the
  type is erased when the code runs, so the field is a string here and the validator
  is read on every string.
\<close>

record Repair =
  repair_id :: string
  customer_id :: string
  device_type :: string
  brand :: string
  model :: string
  issue_description :: string
  status :: string
  created_date :: Timestamp
  cost :: number
  technician_id :: "string option"
  tasks :: "string list"
  "notes" :: "string option"
  passcode :: "string option"
  updatedAt :: "Timestamp option"

definition statusValues :: "string list" where
  "statusValues = [''pending'', ''in-progress'', ''completed'']"

text \<open>
  \<^verbatim>\<open>
  const validateRepair = (repair: Repair) => {
    const errors: string[] = [];
    if (!validateRequired(repair.customer_id)) errors.push('Customer ID is required');
    if (!validateRequired(repair.device_type)) errors.push('Device type is required');
    if (!validateRequired(repair.brand)) errors.push('Brand is required');
    if (!validateRequired(repair.model)) errors.push('Model is required');
    if (!validateRequired(repair.status)) errors.push('Status is required');
    if (!validatePositiveNumber(repair.cost)) {
      errors.push('Cost must be a positive number');
    }
    if (!Array.isArray(repair.tasks) || repair.tasks.length === 0) {
      errors.push('At least one task is required');
    }
    return { valid: errors.length === 0, errors };
  };
  \<close>
\<close>

definition validateRepair :: "Repair \<Rightarrow> ValidationResult" where
  "validateRepair repair =
     (let errs = [];
          errs = pushIf (\<not> validateRequired (JStr (Repair.customer_id repair))) ''Customer ID is required'' errs;
          errs = pushIf (\<not> validateRequired (JStr (Repair.device_type repair))) ''Device type is required'' errs;
          errs = pushIf (\<not> validateRequired (JStr (Repair.brand repair))) ''Brand is required'' errs;
          errs = pushIf (\<not> validateRequired (JStr (Repair.model repair))) ''Model is required'' errs;
          errs = pushIf (\<not> validateRequired (JStr (Repair.status repair))) ''Status is required'' errs;
          errs = pushIf (\<not> validatePositiveNumber (JNum (Repair.cost repair)))
                   ''Cost must be a positive number'' errs;
          errs = pushIf (\<not> isArray (JArr (map JStr (Repair.tasks repair))) \<or> length (Repair.tasks repair) = 0)
                   ''At least one task is required'' errs
      in \<lparr> valid = (length errs = 0), errors = errs \<rparr>)"

subsection \<open>Product\<close>

record Product =
  product_id :: string
  name :: string
  category :: string
  quantity :: number
  price :: number
  supplier :: string
  description :: "string option"
  sku :: "string option"
  createdAt :: "Timestamp option"
  updatedAt :: "Timestamp option"

text \<open>
  \<^verbatim>\<open>
  const validateProduct = (product: Product) => {
    const errors: string[] = [];
    if (!validateRequired(product.name)) errors.push('Name is required');
    if (!validateRequired(product.category)) errors.push('Category is required');
    if (!validateRequired(product.supplier)) errors.push('Supplier is required');
    if (!validatePositiveNumber(product.quantity)) {
      errors.push('Quantity must be a positive number');
    }
    if (!validatePositiveNumber(product.price)) {
      errors.push('Price must be a positive number');
    }
    return { valid: errors.length === 0, errors };
  };
  \<close>
\<close>

definition validateProduct :: "Product \<Rightarrow> ValidationResult" where
  "validateProduct product =
     (let errs = [];
          errs = pushIf (\<not> validateRequired (JStr (Product.name product))) ''Name is required'' errs;
          errs = pushIf (\<not> validateRequired (JStr (Product.category product))) ''Category is required'' errs;
          errs = pushIf (\<not> validateRequired (JStr (Product.supplier product))) ''Supplier is required'' errs;
          errs = pushIf (\<not> validatePositiveNumber (JNum (Product.quantity product)))
                   ''Quantity must be a positive number'' errs;
          errs = pushIf (\<not> validatePositiveNumber (JNum (Product.price product)))
                   ''Price must be a positive number'' errs
      in \<lparr> valid = (length errs = 0), errors = errs \<rparr>)"

subsection \<open>Technician\<close>

record Technician =
  tech_id :: string
  name :: string
  specialization :: "string list"
  availability :: bool
  email :: string
  phone :: string
  createdAt :: "Timestamp option"
  updatedAt :: "Timestamp option"

text \<open>
  \<^verbatim>\<open>
  const validateTechnician = (technician: Technician) => {
    const errors: string[] = [];
    if (!validateRequired(technician.name)) errors.push('Name is required');
    if (!validateRequired(technician.phone)) errors.push('Phone is required');
    if (!Array.isArray(technician.specialization) || technician.specialization.length === 0) {
      errors.push('At least one specialization is required');
    }
    if (technician.email && !validateEmail(technician.email)) {
      errors.push('Email format is invalid');
    }
    if (typeof technician.availability !== 'boolean') {
      errors.push('Availability must be a boolean value');
    }
    return { valid: errors.length === 0, errors };
  };
  \<close>
\<close>

definition validateTechnician :: "Technician \<Rightarrow> ValidationResult" where
  "validateTechnician technician =
     (let errs = [];
          errs = pushIf (\<not> validateRequired (JStr (Technician.name technician))) ''Name is required'' errs;
          errs = pushIf (\<not> validateRequired (JStr (Technician.phone technician))) ''Phone is required'' errs;
          errs = pushIf (\<not> isArray (JArr (map JStr (Technician.specialization technician)))
                           \<or> length (Technician.specialization technician) = 0)
                   ''At least one specialization is required'' errs;
          errs = pushIf (truthy (JStr (Technician.email technician))
                           \<and> \<not> validateEmail (Technician.email technician))
                   ''Email format is invalid'' errs;
          errs = pushIf (typeOf (JBool (Technician.availability technician)) \<noteq> ''boolean'')
                   ''Availability must be a boolean value'' errs
      in \<lparr> valid = (length errs = 0), errors = errs \<rparr>)"

section \<open>Double-precision arithmetic\<close>

text \<open>
  JavaScript numbers are IEEE 754 doubles: \<^verbatim>\<open>a * b\<close> and \<^verbatim>\<open>a + b\<close> are the exact
  product and sum rounded to the nearest double, ties to the even significand.
  \<open>binade x\<close> is the exponent \<open>e\<close> with \<open>2^e \<le> x < 2^(e+1)\<close>; the doubles of that
  binade are the multiples of \<open>2^(e-52)\<close> (of \<open>2^(-1074)\<close> below \<open>2^(-1022)\<close>).
  \<open>roundDouble\<close> is the rounding on values of magnitude below \<open>2^1024\<close>, which is
  all the code computes here; a double is a value that rounding leaves alone.
\<close>

definition roundHalfEven :: "rat \<Rightarrow> int" where
  "roundHalfEven x =
     (let f = \<lfloor>x\<rfloor>; d = x - of_int f
      in if d < 1 / 2 then f else if 1 / 2 < d then f + 1 else if even f then f else f + 1)"

definition binade :: "rat \<Rightarrow> int" where
  "binade x = (if 1 \<le> x then bitlen \<lfloor>x\<rfloor> - 1 else - bitlen (\<lceil>1 / x\<rceil> - 1))"

definition quantum :: "rat \<Rightarrow> rat" where
  "quantum x = 2 powi (max (binade \<bar>x\<bar>) (- 1022) - 52)"

definition roundDouble :: "rat \<Rightarrow> rat" where
  "roundDouble x =
     (if x = 0 then 0
      else sgn x * (quantum x * of_int (roundHalfEven (\<bar>x\<bar> / quantum x))))"

definition isDouble :: "rat \<Rightarrow> bool" where
  "isDouble x = (roundDouble x = x)"

section \<open>The backing store and the runtime\<close>

text \<open>
  Firestore, the clock, the locale tables and the random number generator are outside
  the repository. One call of a repository function sees them through a \<open>World\<close>:
  whether the store answers reads and accepts writes (a rejected promise otherwise:
  no connection, or the security rules deny), the identifier \<^verbatim>\<open>addDoc\<close> assigns, the
  time \<^verbatim>\<open>serverTimestamp()\<close> resolves to, the month of \<^verbatim>\<open>new Date()\<close>, the value of
  \<^verbatim>\<open>Math.random()\<close> and the base-36 digits \<^verbatim>\<open>toString(36)\<close> prints for that value.
\<close>

datatype error = Error string | FirebaseError

datatype Month = Jan | Feb | Mar | Apr | May | Jun | Jul | Aug | Sep | Oct | Nov | Dec

record World =
  readOk :: bool
  writeOk :: bool
  autoId :: string
  serverTime :: Timestamp
  today :: Month
  mathRandom :: rat
  random36Digits :: "nat list"

text \<open>
  A collection lists its documents, each under its identifier; \<^verbatim>\<open>getDoc\<close> finds the
  first document stored under an identifier and \<^verbatim>\<open>updateDoc\<close> rewrites that one.
  (Firestore keeps identifiers unique; nothing below relies on it.)
\<close>

type_synonym 'd collection = "(string \<times> 'd) list"

definition getDoc :: "World \<Rightarrow> 'd collection \<Rightarrow> string \<Rightarrow> error + 'd option" where
  "getDoc w coll docId = (if readOk w then Inr (map_of coll docId) else Inl FirebaseError)"

definition getDocs :: "World \<Rightarrow> 'd collection \<Rightarrow> error + (string \<times> 'd) list" where
  "getDocs w coll = (if readOk w then Inr coll else Inl FirebaseError)"

text \<open>\<^verbatim>\<open>getDocs(query(coll, where(field, '==', value)))\<close>, the clause as a predicate.\<close>

definition getDocsWhere ::
  "World \<Rightarrow> 'd collection \<Rightarrow> ('d \<Rightarrow> bool) \<Rightarrow> error + (string \<times> 'd) list" where
  "getDocsWhere w coll clause =
     (if readOk w then Inr (filter (\<lambda>doc. clause (snd doc)) coll) else Inl FirebaseError)"

definition addDoc :: "World \<Rightarrow> 'd collection \<Rightarrow> 'd \<Rightarrow> error + (string \<times> 'd collection)" where
  "addDoc w coll d =
     (if writeOk w then Inr (autoId w, coll @ [(autoId w, d)]) else Inl FirebaseError)"

fun updateFirst :: "string \<Rightarrow> ('d \<Rightarrow> 'd) \<Rightarrow> 'd collection \<Rightarrow> 'd collection" where
  "updateFirst docId f [] = []"
| "updateFirst docId f ((k, d) # rest) =
     (if k = docId then (k, f d) # rest else (k, d) # updateFirst docId f rest)"

text \<open>
  \<^verbatim>\<open>updateDoc(ref, data)\<close> writes the fields that \<^verbatim>\<open>data\<close> holds into the existing
  document and fails when there is none; \<open>f\<close> is that field-wise overwrite.
\<close>

definition updateDoc ::
  "World \<Rightarrow> 'd collection \<Rightarrow> string \<Rightarrow> ('d \<Rightarrow> 'd) \<Rightarrow> error + 'd collection" where
  "updateDoc w coll docId f =
     (if writeOk w \<and> map_of coll docId \<noteq> None then Inr (updateFirst docId f coll)
      else Inl FirebaseError)"

record Firestore =
  customersCollection :: "Customer collection"
  repairsCollection :: "Repair collection"
  productsCollection :: "Product collection"
  techniciansCollection :: "Technician collection"

text \<open>\<^verbatim>\<open>`Validation failed: ${validation.errors.join(', ')}`\<close>.\<close>

definition validationFailed :: "ValidationResult \<Rightarrow> error" where
  "validationFailed validation = Error (''Validation failed: '' @ join '', '' (errors validation))"

subsection \<open>Strings of the runtime\<close>

definition toUpperCase :: "string \<Rightarrow> string" where
  "toUpperCase s =
     map (\<lambda>c. case map_of (zip ''abcdefghijklmnopqrstuvwxyz'' ''ABCDEFGHIJKLMNOPQRSTUVWXYZ'') c of
                 Some u \<Rightarrow> u | None \<Rightarrow> c) s"

definition toLowerCase :: "string \<Rightarrow> string" where
  "toLowerCase s =
     map (\<lambda>c. case map_of (zip ''ABCDEFGHIJKLMNOPQRSTUVWXYZ'' ''abcdefghijklmnopqrstuvwxyz'') c of
                 Some l \<Rightarrow> l | None \<Rightarrow> c) s"

text \<open>\<^verbatim>\<open>s.substring(a, b)\<close>: both indices clamped to the length, the smaller one first.\<close>

definition substring :: "string \<Rightarrow> nat \<Rightarrow> nat \<Rightarrow> string" where
  "substring s a b =
     (let a' = min a (length s); b' = min b (length s)
      in take (max a' b' - min a' b') (drop (min a' b') s))"

text \<open>\<^verbatim>\<open>date.toLocaleString('en-US', { month: 'short' })\<close>.\<close>

fun monthShort :: "Month \<Rightarrow> string" where
  "monthShort Jan = ''Jan''"
| "monthShort Feb = ''Feb''"
| "monthShort Mar = ''Mar''"
| "monthShort Apr = ''Apr''"
| "monthShort May = ''May''"
| "monthShort Jun = ''Jun''"
| "monthShort Jul = ''Jul''"
| "monthShort Aug = ''Aug''"
| "monthShort Sep = ''Sep''"
| "monthShort Oct = ''Oct''"
| "monthShort Nov = ''Nov''"
| "monthShort Dec = ''Dec''"

text \<open>An integer in a template literal: its decimal digits, with a sign when negative.\<close>

definition digitChar :: "nat \<Rightarrow> char" where
  "digitChar d = ''0123456789'' ! (d mod 10)"

fun natToString :: "nat \<Rightarrow> string" where
  "natToString n = (if n < 10 then [digitChar n] else natToString (n div 10) @ [digitChar (n mod 10)])"

declare natToString.simps [simp del]

definition intToString :: "int \<Rightarrow> string" where
  "intToString i = (if i < 0 then ''-'' @ natToString (nat (- i)) else natToString (nat i))"

text \<open>
  \<^verbatim>\<open>Math.random().toString(36)\<close>. For a number in \<open>[0, 1)\<close> the result is \<^verbatim>\<open>0\<close>, or
  \<^verbatim>\<open>0.\<close> followed by base-36 digits; how many digits are printed, and which, is left
  to the runtime (the language fixes the algorithm for radix 10 only), so the digits
  are the world's. \<open>base36Value\<close> is the number a list of digits after the point denotes.
\<close>

definition digit36 :: "nat \<Rightarrow> char" where
  "digit36 d = ''0123456789abcdefghijklmnopqrstuvwxyz'' ! (d mod 36)"

definition mathRandom36 :: "World \<Rightarrow> string" where
  "mathRandom36 w =
     (if random36Digits w = [] then ''0'' else ''0.'' @ map digit36 (random36Digits w))"

definition base36Value :: "nat list \<Rightarrow> rat" where
  "base36Value ds = foldr (\<lambda>d v. (of_nat d + v) / 36) ds 0"

text \<open>The characters of a number printed in base 36, and of the same in upper case.\<close>

definition isBase36 :: "char \<Rightarrow> bool" where
  "isBase36 c = (c \<in> set ''0123456789abcdefghijklmnopqrstuvwxyz'')"

definition isUpperBase36 :: "char \<Rightarrow> bool" where
  "isUpperBase36 c = (c \<in> set ''0123456789ABCDEFGHIJKLMNOPQRSTUVWXYZ'')"

definition isDigit :: "char \<Rightarrow> bool" where
  "isDigit c = (c \<in> set ''0123456789'')"

definition isLowerLetter :: "char \<Rightarrow> bool" where
  "isLowerLetter c = (c \<in> set ''abcdefghijklmnopqrstuvwxyz'')"

section \<open>Entity repositories\<close>

text \<open>
  A repository function takes the world and the store and returns the store after
  the call with what the caller gets: \<open>Inl e\<close> is an exception that reaches the
  caller, \<open>Inr v\<close> a returned value (\<open>None\<close> for \<^verbatim>\<open>null\<close>). The body of a
  \<^verbatim>\<open>try\<close> block is a function of its own (\<open>_try\<close>) whose \<open>Inl\<close> results are what
  the \<^verbatim>\<open>catch\<close> clause receives.

  \<^verbatim>\<open>Partial<T>\<close> is the record of \<open>T\<close>'s fields, each one present (\<open>Some\<close>) or
  absent; \<^verbatim>\<open>{ ...current, ...partial }\<close> overwrites the fields that are present.
\<close>

definition overlay :: "'a option \<Rightarrow> 'a \<Rightarrow> 'a" where
  "overlay p v = (case p of Some x \<Rightarrow> x | None \<Rightarrow> v)"

definition overlayOptional :: "'a option \<Rightarrow> 'a option \<Rightarrow> 'a option" where
  "overlayOptional p v = (case p of Some x \<Rightarrow> Some x | None \<Rightarrow> v)"

subsection \<open>Customers\<close>

record CustomerPartial =
  name :: "string option"
  phone :: "string option"
  email :: "string option"
  address :: "string option"
  createdAt :: "Timestamp option"
  updatedAt :: "Timestamp option"

definition applyCustomerPartial :: "CustomerPartial \<Rightarrow> Customer \<Rightarrow> Customer" where
  "applyCustomerPartial p c =
     \<lparr> Customer.name = overlay (CustomerPartial.name p) (Customer.name c),
       Customer.phone = overlay (CustomerPartial.phone p) (Customer.phone c),
       Customer.email = overlay (CustomerPartial.email p) (Customer.email c),
       Customer.address = overlay (CustomerPartial.address p) (Customer.address c),
       Customer.createdAt = overlayOptional (CustomerPartial.createdAt p) (Customer.createdAt c),
       Customer.updatedAt = overlayOptional (CustomerPartial.updatedAt p) (Customer.updatedAt c) \<rparr>"

text \<open>The fields an object of type \<^verbatim>\<open>Customer\<close> holds, as \<^verbatim>\<open>updateDoc\<close> receives them.\<close>

definition customerFields :: "Customer \<Rightarrow> CustomerPartial" where
  "customerFields c =
     \<lparr> CustomerPartial.name = Some (Customer.name c),
       CustomerPartial.phone = Some (Customer.phone c),
       CustomerPartial.email = Some (Customer.email c),
       CustomerPartial.address = Some (Customer.address c),
       CustomerPartial.createdAt = Customer.createdAt c,
       CustomerPartial.updatedAt = Customer.updatedAt c \<rparr>"

text \<open>
  \<^verbatim>\<open>
  const addCustomer = async (customer: Customer): Promise<string | null> => {
    const validation = validateCustomer(customer);
    if (!validation.valid) {
      console.error('Customer validation failed:', validation.errors);
      throw new Error(`Validation failed: ${validation.errors.join(', ')}`);
    }
    try {
      const customerData = { ...customer, createdAt: serverTimestamp(), updatedAt: serverTimestamp() };
      const docRef = await addDoc(customersCollection, customerData);
      return docRef.id;
    } catch (error) {
      console.error('Error adding customer:', error);
      return null;
    }
  };
  \<close>
\<close>

definition addCustomer_try :: "World \<Rightarrow> Firestore \<Rightarrow> Customer \<Rightarrow> error + (Firestore \<times> string)" where
  "addCustomer_try w db customer =
     (let customerData = customer\<lparr> Customer.createdAt := Some (serverTime w),
                                   Customer.updatedAt := Some (serverTime w) \<rparr>
      in case addDoc w (customersCollection db) customerData of
           Inl e \<Rightarrow> Inl e
         | Inr (docId, coll) \<Rightarrow> Inr (db\<lparr>customersCollection := coll\<rparr>, docId))"

definition addCustomer :: "World \<Rightarrow> Firestore \<Rightarrow> Customer \<Rightarrow> Firestore \<times> (error + string option)" where
  "addCustomer w db customer =
     (let validation = validateCustomer customer
      in if \<not> valid validation then (db, Inl (validationFailed validation))
         else case addCustomer_try w db customer of
                Inl e \<Rightarrow> (db, Inr None)
              | Inr (db', docId) \<Rightarrow> (db', Inr (Some docId)))"

text \<open>
  \<^verbatim>\<open>
  const updateCustomer = async (customerId: string, customer: Partial<Customer>): Promise<boolean> => {
    try {
      const customerRef = doc(db, 'customers', customerId);
      const customerDoc = await getDoc(customerRef);
      if (!customerDoc.exists()) {
        throw new Error('Customer not found');
      }
      const currentData = customerDoc.data() as Customer;
      const updatedData = { ...currentData, ...customer, updatedAt: serverTimestamp() };
      const validation = validateCustomer(updatedData as Customer);
      if (!validation.valid) {
        throw new Error(`Validation failed: ${validation.errors.join(', ')}`);
      }
      await updateDoc(customerRef, updatedData);
      return true;
    } catch (error) {
      console.error('Error updating customer:', error);
      return false;
    }
  };
  \<close>
\<close>

definition updateCustomer_try :: "World \<Rightarrow> Firestore \<Rightarrow> string \<Rightarrow> CustomerPartial \<Rightarrow> error + Firestore" where
  "updateCustomer_try w db customerId customer =
     (case getDoc w (customersCollection db) customerId of
        Inl e \<Rightarrow> Inl e
      | Inr None \<Rightarrow> Inl (Error ''Customer not found'')
      | Inr (Some currentData) \<Rightarrow>
          (let updatedData = (applyCustomerPartial customer currentData)
                               \<lparr> Customer.updatedAt := Some (serverTime w) \<rparr>;
               validation = validateCustomer updatedData
           in if \<not> valid validation then Inl (validationFailed validation)
              else case updateDoc w (customersCollection db) customerId
                          (applyCustomerPartial (customerFields updatedData)) of
                     Inl e \<Rightarrow> Inl e
                   | Inr coll \<Rightarrow> Inr (db\<lparr>customersCollection := coll\<rparr>)))"

definition updateCustomer :: "World \<Rightarrow> Firestore \<Rightarrow> string \<Rightarrow> CustomerPartial \<Rightarrow> Firestore \<times> bool" where
  "updateCustomer w db customerId customer =
     (case updateCustomer_try w db customerId customer of
        Inl e \<Rightarrow> (db, False)
      | Inr db' \<Rightarrow> (db', True))"

text \<open>
  \<^verbatim>\<open>getCustomers\<close>: every document with its identifier, \<^verbatim>\<open>[]\<close> when the read fails.
\<close>

definition getCustomers :: "World \<Rightarrow> Firestore \<Rightarrow> (string \<times> Customer) list" where
  "getCustomers w db = (case getDocs w (customersCollection db) of Inl e \<Rightarrow> [] | Inr docs \<Rightarrow> docs)"

subsection \<open>Repairs\<close>

text \<open>\<^verbatim>\<open>Omit<Repair, 'repair_id' | 'created_date'>\<close> and \<^verbatim>\<open>Partial<Repair>\<close>.\<close>

record RepairInput =
  customer_id :: string
  device_type :: string
  brand :: string
  model :: string
  issue_description :: string
  status :: string
  cost :: number
  technician_id :: "string option"
  tasks :: "string list"
  "notes" :: "string option"
  passcode :: "string option"
  updatedAt :: "Timestamp option"

record RepairPartial =
  repair_id :: "string option"
  customer_id :: "string option"
  device_type :: "string option"
  brand :: "string option"
  model :: "string option"
  issue_description :: "string option"
  status :: "string option"
  created_date :: "Timestamp option"
  cost :: "number option"
  technician_id :: "string option"
  tasks :: "string list option"
  "notes" :: "string option"
  passcode :: "string option"
  updatedAt :: "Timestamp option"

definition applyRepairPartial :: "RepairPartial \<Rightarrow> Repair \<Rightarrow> Repair" where
  "applyRepairPartial p r =
     \<lparr> Repair.repair_id = overlay (RepairPartial.repair_id p) (Repair.repair_id r),
       Repair.customer_id = overlay (RepairPartial.customer_id p) (Repair.customer_id r),
       Repair.device_type = overlay (RepairPartial.device_type p) (Repair.device_type r),
       Repair.brand = overlay (RepairPartial.brand p) (Repair.brand r),
       Repair.model = overlay (RepairPartial.model p) (Repair.model r),
       Repair.issue_description = overlay (RepairPartial.issue_description p) (Repair.issue_description r),
       Repair.status = overlay (RepairPartial.status p) (Repair.status r),
       Repair.created_date = overlay (RepairPartial.created_date p) (Repair.created_date r),
       Repair.cost = overlay (RepairPartial.cost p) (Repair.cost r),
       Repair.technician_id = overlayOptional (RepairPartial.technician_id p) (Repair.technician_id r),
       Repair.tasks = overlay (RepairPartial.tasks p) (Repair.tasks r),
       Repair.notes = overlayOptional (RepairPartial.notes p) (Repair.notes r),
       Repair.passcode = overlayOptional (RepairPartial.passcode p) (Repair.passcode r),
       Repair.updatedAt = overlayOptional (RepairPartial.updatedAt p) (Repair.updatedAt r) \<rparr>"

text \<open>
  \<^verbatim>\<open>
  const date = new Date();
  const month = date.toLocaleString('en-US', { month: 'short' }).toLowerCase();
  const randomNum = Math.floor(1000 + Math.random() * 9000);
  const repair_id = `${month}${randomNum}`;
  \<close>
\<close>

text \<open>The product and the sum are rounded to doubles before \<^verbatim>\<open>Math.floor\<close>.\<close>

definition randomNum :: "World \<Rightarrow> int" where
  "randomNum w = \<lfloor>roundDouble (1000 + roundDouble (mathRandom w * 9000))\<rfloor>"

definition newRepairId :: "World \<Rightarrow> string" where
  "newRepairId w = toLowerCase (monthShort (today w)) @ intToString (randomNum w)"

text \<open>
  \<^verbatim>\<open>
  const addRepair = async (repair: Omit<Repair, 'repair_id' | 'created_date'>) => {
    try {
      ...
      const repairData = { ...repair, repair_id, created_date: serverTimestamp(),
                           updatedAt: serverTimestamp() };
      const validation = validateRepair(repairData as Repair);
      if (!validation.valid) {
        throw new Error(`Validation failed: ${validation.errors.join(', ')}`);
      }
      const docRef = await addDoc(repairsCollection, repairData);
      return docRef.id;
    } catch (error) {
      console.error('Error adding repair:', error);
      return null;
    }
  };
  \<close>
\<close>

definition addRepair_try :: "World \<Rightarrow> Firestore \<Rightarrow> RepairInput \<Rightarrow> error + (Firestore \<times> string)" where
  "addRepair_try w db repair =
     (let repairData =
            \<lparr> Repair.repair_id = newRepairId w,
              Repair.customer_id = RepairInput.customer_id repair,
              Repair.device_type = RepairInput.device_type repair,
              Repair.brand = RepairInput.brand repair,
              Repair.model = RepairInput.model repair,
              Repair.issue_description = RepairInput.issue_description repair,
              Repair.status = RepairInput.status repair,
              Repair.created_date = serverTime w,
              Repair.cost = RepairInput.cost repair,
              Repair.technician_id = RepairInput.technician_id repair,
              Repair.tasks = RepairInput.tasks repair,
              Repair.notes = RepairInput.notes repair,
              Repair.passcode = RepairInput.passcode repair,
              Repair.updatedAt = Some (serverTime w) \<rparr>;
          validation = validateRepair repairData
      in if \<not> valid validation then Inl (validationFailed validation)
         else case addDoc w (repairsCollection db) repairData of
                Inl e \<Rightarrow> Inl e
              | Inr (docId, coll) \<Rightarrow> Inr (db\<lparr>repairsCollection := coll\<rparr>, docId))"

definition addRepair :: "World \<Rightarrow> Firestore \<Rightarrow> RepairInput \<Rightarrow> Firestore \<times> (error + string option)" where
  "addRepair w db repair =
     (case addRepair_try w db repair of
        Inl e \<Rightarrow> (db, Inr None)
      | Inr (db', docId) \<Rightarrow> (db', Inr (Some docId)))"

text \<open>
  \<^verbatim>\<open>
  const updateRepair = async (repairId: string, repair: Partial<Repair>): Promise<boolean> => {
    try {
      const repairRef = doc(db, 'repairs', repairId);
      const repairDoc = await getDoc(repairRef);
      if (!repairDoc.exists()) {
        throw new Error('Repair not found');
      }
      const updatedData = { ...repair, updatedAt: serverTimestamp() };
      await updateDoc(repairRef, updatedData);
      return true;
    } catch (error) {
      console.error('Error updating repair:', error);
      return false;
    }
  };
  \<close>
\<close>

definition updateRepair_try :: "World \<Rightarrow> Firestore \<Rightarrow> string \<Rightarrow> RepairPartial \<Rightarrow> error + Firestore" where
  "updateRepair_try w db repairId repair =
     (case getDoc w (repairsCollection db) repairId of
        Inl e \<Rightarrow> Inl e
      | Inr None \<Rightarrow> Inl (Error ''Repair not found'')
      | Inr (Some repairDoc) \<Rightarrow>
          (let updatedData = repair\<lparr> RepairPartial.updatedAt := Some (serverTime w) \<rparr>
           in case updateDoc w (repairsCollection db) repairId (applyRepairPartial updatedData) of
                Inl e \<Rightarrow> Inl e
              | Inr coll \<Rightarrow> Inr (db\<lparr>repairsCollection := coll\<rparr>)))"

definition updateRepair :: "World \<Rightarrow> Firestore \<Rightarrow> string \<Rightarrow> RepairPartial \<Rightarrow> Firestore \<times> bool" where
  "updateRepair w db repairId repair =
     (case updateRepair_try w db repairId repair of
        Inl e \<Rightarrow> (db, False)
      | Inr db' \<Rightarrow> (db', True))"

definition getRepairs :: "World \<Rightarrow> Firestore \<Rightarrow> (string \<times> Repair) list" where
  "getRepairs w db = (case getDocs w (repairsCollection db) of Inl e \<Rightarrow> [] | Inr docs \<Rightarrow> docs)"

text \<open>
  \<^verbatim>\<open>
  const q = query(repairsCollection, where('status', '==', status));
  const querySnapshot = await getDocs(q);
  return querySnapshot.docs.map(doc => ({ id: doc.id, ...doc.data() as Repair }));
  \<close>
  in a \<^verbatim>\<open>try\<close> whose \<^verbatim>\<open>catch\<close> returns \<^verbatim>\<open>[]\<close>; the same with \<^verbatim>\<open>customer_id\<close>.
\<close>

definition getRepairsByStatus :: "World \<Rightarrow> Firestore \<Rightarrow> string \<Rightarrow> (string \<times> Repair) list" where
  "getRepairsByStatus w db status' =
     (case getDocsWhere w (repairsCollection db) (\<lambda>d. Repair.status d = status') of
        Inl e \<Rightarrow> []
      | Inr docs \<Rightarrow> docs)"

definition getRepairsByCustomerId :: "World \<Rightarrow> Firestore \<Rightarrow> string \<Rightarrow> (string \<times> Repair) list" where
  "getRepairsByCustomerId w db customerId =
     (case getDocsWhere w (repairsCollection db) (\<lambda>d. Repair.customer_id d = customerId) of
        Inl e \<Rightarrow> []
      | Inr docs \<Rightarrow> docs)"

subsection \<open>Products\<close>

text \<open>\<^verbatim>\<open>Omit<Product, 'product_id'>\<close> and \<^verbatim>\<open>Partial<Product>\<close>.\<close>

record ProductInput =
  name :: string
  category :: string
  quantity :: number
  price :: number
  supplier :: string
  description :: "string option"
  sku :: "string option"
  createdAt :: "Timestamp option"
  updatedAt :: "Timestamp option"

record ProductPartial =
  product_id :: "string option"
  name :: "string option"
  category :: "string option"
  quantity :: "number option"
  price :: "number option"
  supplier :: "string option"
  description :: "string option"
  sku :: "string option"
  createdAt :: "Timestamp option"
  updatedAt :: "Timestamp option"

definition applyProductPartial :: "ProductPartial \<Rightarrow> Product \<Rightarrow> Product" where
  "applyProductPartial p d =
     \<lparr> Product.product_id = overlay (ProductPartial.product_id p) (Product.product_id d),
       Product.name = overlay (ProductPartial.name p) (Product.name d),
       Product.category = overlay (ProductPartial.category p) (Product.category d),
       Product.quantity = overlay (ProductPartial.quantity p) (Product.quantity d),
       Product.price = overlay (ProductPartial.price p) (Product.price d),
       Product.supplier = overlay (ProductPartial.supplier p) (Product.supplier d),
       Product.description = overlayOptional (ProductPartial.description p) (Product.description d),
       Product.sku = overlayOptional (ProductPartial.sku p) (Product.sku d),
       Product.createdAt = overlayOptional (ProductPartial.createdAt p) (Product.createdAt d),
       Product.updatedAt = overlayOptional (ProductPartial.updatedAt p) (Product.updatedAt d) \<rparr>"

text \<open>
  \<^verbatim>\<open>
  const randomId = Math.random().toString(36).substring(2, 10).toUpperCase();
  const product_id = `PROD-${randomId}`;
  \<close>
\<close>

definition newProductId :: "World \<Rightarrow> string" where
  "newProductId w = ''PROD-'' @ toUpperCase (substring (mathRandom36 w) 2 10)"

text \<open>
  \<^verbatim>\<open>
  const addProduct = async (product: Omit<Product, 'product_id'>) => {
    try {
      ...
      const productData = { ...product, product_id, createdAt: serverTimestamp(),
                            updatedAt: serverTimestamp() };
      const validation = validateProduct(productData as Product);
      if (!validation.valid) {
        throw new Error(`Validation failed: ${validation.errors.join(', ')}`);
      }
      const docRef = await addDoc(productsCollection, productData);
      return docRef.id;
    } catch (error) {
      console.error('Error adding product:', error);
      return null;
    }
  };
  \<close>
\<close>

definition addProduct_try :: "World \<Rightarrow> Firestore \<Rightarrow> ProductInput \<Rightarrow> error + (Firestore \<times> string)" where
  "addProduct_try w db product =
     (let productData =
            \<lparr> Product.product_id = newProductId w,
              Product.name = ProductInput.name product,
              Product.category = ProductInput.category product,
              Product.quantity = ProductInput.quantity product,
              Product.price = ProductInput.price product,
              Product.supplier = ProductInput.supplier product,
              Product.description = ProductInput.description product,
              Product.sku = ProductInput.sku product,
              Product.createdAt = Some (serverTime w),
              Product.updatedAt = Some (serverTime w) \<rparr>;
          validation = validateProduct productData
      in if \<not> valid validation then Inl (validationFailed validation)
         else case addDoc w (productsCollection db) productData of
                Inl e \<Rightarrow> Inl e
              | Inr (docId, coll) \<Rightarrow> Inr (db\<lparr>productsCollection := coll\<rparr>, docId))"

definition addProduct :: "World \<Rightarrow> Firestore \<Rightarrow> ProductInput \<Rightarrow> Firestore \<times> (error + string option)" where
  "addProduct w db product =
     (case addProduct_try w db product of
        Inl e \<Rightarrow> (db, Inr None)
      | Inr (db', docId) \<Rightarrow> (db', Inr (Some docId)))"

text \<open>\<^verbatim>\<open>updateProduct\<close> is \<^verbatim>\<open>updateRepair\<close> on the products collection.\<close>

definition updateProduct_try :: "World \<Rightarrow> Firestore \<Rightarrow> string \<Rightarrow> ProductPartial \<Rightarrow> error + Firestore" where
  "updateProduct_try w db productId product =
     (case getDoc w (productsCollection db) productId of
        Inl e \<Rightarrow> Inl e
      | Inr None \<Rightarrow> Inl (Error ''Product not found'')
      | Inr (Some productDoc) \<Rightarrow>
          (let updatedData = product\<lparr> ProductPartial.updatedAt := Some (serverTime w) \<rparr>
           in case updateDoc w (productsCollection db) productId (applyProductPartial updatedData) of
                Inl e \<Rightarrow> Inl e
              | Inr coll \<Rightarrow> Inr (db\<lparr>productsCollection := coll\<rparr>)))"

definition updateProduct :: "World \<Rightarrow> Firestore \<Rightarrow> string \<Rightarrow> ProductPartial \<Rightarrow> Firestore \<times> bool" where
  "updateProduct w db productId product =
     (case updateProduct_try w db productId product of
        Inl e \<Rightarrow> (db, False)
      | Inr db' \<Rightarrow> (db', True))"

definition getProducts :: "World \<Rightarrow> Firestore \<Rightarrow> (string \<times> Product) list" where
  "getProducts w db = (case getDocs w (productsCollection db) of Inl e \<Rightarrow> [] | Inr docs \<Rightarrow> docs)"

definition getProductsByCategory :: "World \<Rightarrow> Firestore \<Rightarrow> string \<Rightarrow> (string \<times> Product) list" where
  "getProductsByCategory w db category' =
     (case getDocsWhere w (productsCollection db) (\<lambda>d. Product.category d = category') of
        Inl e \<Rightarrow> []
      | Inr docs \<Rightarrow> docs)"

subsection \<open>Technicians\<close>

text \<open>\<^verbatim>\<open>Omit<Technician, 'tech_id'>\<close> and \<^verbatim>\<open>Partial<Technician>\<close>.\<close>

record TechnicianInput =
  name :: string
  specialization :: "string list"
  availability :: bool
  email :: string
  phone :: string
  createdAt :: "Timestamp option"
  updatedAt :: "Timestamp option"

record TechnicianPartial =
  tech_id :: "string option"
  name :: "string option"
  specialization :: "string list option"
  availability :: "bool option"
  email :: "string option"
  phone :: "string option"
  createdAt :: "Timestamp option"
  updatedAt :: "Timestamp option"

definition applyTechnicianPartial :: "TechnicianPartial \<Rightarrow> Technician \<Rightarrow> Technician" where
  "applyTechnicianPartial p t =
     \<lparr> Technician.tech_id = overlay (TechnicianPartial.tech_id p) (Technician.tech_id t),
       Technician.name = overlay (TechnicianPartial.name p) (Technician.name t),
       Technician.specialization =
         overlay (TechnicianPartial.specialization p) (Technician.specialization t),
       Technician.availability =
         overlay (TechnicianPartial.availability p) (Technician.availability t),
       Technician.email = overlay (TechnicianPartial.email p) (Technician.email t),
       Technician.phone = overlay (TechnicianPartial.phone p) (Technician.phone t),
       Technician.createdAt = overlayOptional (TechnicianPartial.createdAt p) (Technician.createdAt t),
       Technician.updatedAt = overlayOptional (TechnicianPartial.updatedAt p) (Technician.updatedAt t) \<rparr>"

text \<open>
  \<^verbatim>\<open>
  const randomId = Math.random().toString(36).substring(2, 8).toUpperCase();
  const tech_id = `TECH-${randomId}`;
  \<close>
\<close>

definition newTechId :: "World \<Rightarrow> string" where
  "newTechId w = ''TECH-'' @ toUpperCase (substring (mathRandom36 w) 2 8)"

text \<open>
  \<^verbatim>\<open>addTechnician\<close> is \<^verbatim>\<open>addProduct\<close> with \<^verbatim>\<open>tech_id\<close>, \<^verbatim>\<open>validateTechnician\<close> and
  the technicians collection.
\<close>

definition addTechnician_try ::
  "World \<Rightarrow> Firestore \<Rightarrow> TechnicianInput \<Rightarrow> error + (Firestore \<times> string)" where
  "addTechnician_try w db technician =
     (let technicianData =
            \<lparr> Technician.tech_id = newTechId w,
              Technician.name = TechnicianInput.name technician,
              Technician.specialization = TechnicianInput.specialization technician,
              Technician.availability = TechnicianInput.availability technician,
              Technician.email = TechnicianInput.email technician,
              Technician.phone = TechnicianInput.phone technician,
              Technician.createdAt = Some (serverTime w),
              Technician.updatedAt = Some (serverTime w) \<rparr>;
          validation = validateTechnician technicianData
      in if \<not> valid validation then Inl (validationFailed validation)
         else case addDoc w (techniciansCollection db) technicianData of
                Inl e \<Rightarrow> Inl e
              | Inr (docId, coll) \<Rightarrow> Inr (db\<lparr>techniciansCollection := coll\<rparr>, docId))"

definition addTechnician ::
  "World \<Rightarrow> Firestore \<Rightarrow> TechnicianInput \<Rightarrow> Firestore \<times> (error + string option)" where
  "addTechnician w db technician =
     (case addTechnician_try w db technician of
        Inl e \<Rightarrow> (db, Inr None)
      | Inr (db', docId) \<Rightarrow> (db', Inr (Some docId)))"

definition updateTechnician_try ::
  "World \<Rightarrow> Firestore \<Rightarrow> string \<Rightarrow> TechnicianPartial \<Rightarrow> error + Firestore" where
  "updateTechnician_try w db technicianId technician =
     (case getDoc w (techniciansCollection db) technicianId of
        Inl e \<Rightarrow> Inl e
      | Inr None \<Rightarrow> Inl (Error ''Technician not found'')
      | Inr (Some technicianDoc) \<Rightarrow>
          (let updatedData = technician\<lparr> TechnicianPartial.updatedAt := Some (serverTime w) \<rparr>
           in case updateDoc w (techniciansCollection db) technicianId
                     (applyTechnicianPartial updatedData) of
                Inl e \<Rightarrow> Inl e
              | Inr coll \<Rightarrow> Inr (db\<lparr>techniciansCollection := coll\<rparr>)))"

definition updateTechnician ::
  "World \<Rightarrow> Firestore \<Rightarrow> string \<Rightarrow> TechnicianPartial \<Rightarrow> Firestore \<times> bool" where
  "updateTechnician w db technicianId technician =
     (case updateTechnician_try w db technicianId technician of
        Inl e \<Rightarrow> (db, False)
      | Inr db' \<Rightarrow> (db', True))"

definition getTechnicians :: "World \<Rightarrow> Firestore \<Rightarrow> (string \<times> Technician) list" where
  "getTechnicians w db =
     (case getDocs w (techniciansCollection db) of Inl e \<Rightarrow> [] | Inr docs \<Rightarrow> docs)"

text \<open>\<^verbatim>\<open>query(techniciansCollection, where('availability', '==', true))\<close>.\<close>

definition getAvailableTechnicians :: "World \<Rightarrow> Firestore \<Rightarrow> (string \<times> Technician) list" where
  "getAvailableTechnicians w db =
     (case getDocsWhere w (techniciansCollection db) (\<lambda>d. Technician.availability d = True) of
        Inl e \<Rightarrow> []
      | Inr docs \<Rightarrow> docs)"

section \<open>Data-fetch hooks\<close>

text \<open>
  A hook keeps three state cells (the fetched rows, \<^verbatim>\<open>loading\<close>, \<^verbatim>\<open>error\<close>) and
  registers one effect with its query parameter as the only dependency. An effect is
  modelled by what it does to the cells once its fetch has settled, together with the
  list of repository calls it made. React runs the effect after the first render and
  after each render whose dependency differs from the previous one (\<open>useEffect\<close>).
\<close>

record 'a HookState =
  rows :: "'a list"
  loading :: bool
  error :: "error option"

datatype RepositoryCall =
    CallGetRepairsByStatus string
  | CallGetRepairsByCustomerId string
  | CallGetProductsByCategory string

definition useEffect ::
  "('dep \<Rightarrow> 's \<Rightarrow> 's \<times> RepositoryCall list) \<Rightarrow> 'dep option \<Rightarrow> 'dep \<Rightarrow> 's \<Rightarrow> 's \<times> RepositoryCall list" where
  "useEffect effect previous dep st = (if previous = Some dep then (st, []) else effect dep st)"

text \<open>
  \<^verbatim>\<open>
  const fetchRepairsByStatus = async () => {
    try {
      setLoading(true);
      const data = await getRepairsByStatus(status);
      setRepairs(data);
      setError(null);
    } catch (err) { setError(...); } finally { setLoading(false); }
  };
  fetchRepairsByStatus();
  \<close>
  The repository functions return a list and never throw, so the \<^verbatim>\<open>catch\<close> clause of
  a fetch is never entered.
\<close>

definition fetched :: "'a list \<Rightarrow> 'a HookState \<Rightarrow> 'a HookState" where
  "fetched data st = st\<lparr> loading := True \<rparr>\<lparr> rows := data \<rparr>\<lparr> error := None \<rparr>\<lparr> loading := False \<rparr>"

definition useRepairsByStatus_effect ::
  "World \<Rightarrow> Firestore \<Rightarrow> string \<Rightarrow> (string \<times> Repair) HookState
     \<Rightarrow> (string \<times> Repair) HookState \<times> RepositoryCall list" where
  "useRepairsByStatus_effect w db status' st =
     (fetched (getRepairsByStatus w db status') st, [CallGetRepairsByStatus status'])"

text \<open>
  \<^verbatim>\<open>
  if (customerId) {
    fetchRepairsByCustomerId();
  } else {
    setRepairs([]);
    setLoading(false);
  }
  \<close>
\<close>

definition useRepairsByCustomerId_effect ::
  "World \<Rightarrow> Firestore \<Rightarrow> string \<Rightarrow> (string \<times> Repair) HookState
     \<Rightarrow> (string \<times> Repair) HookState \<times> RepositoryCall list" where
  "useRepairsByCustomerId_effect w db customerId st =
     (if truthy (JStr customerId)
      then (fetched (getRepairsByCustomerId w db customerId) st, [CallGetRepairsByCustomerId customerId])
      else (st\<lparr> rows := [] \<rparr>\<lparr> loading := False \<rparr>, []))"

definition useProductsByCategory_effect ::
  "World \<Rightarrow> Firestore \<Rightarrow> string \<Rightarrow> (string \<times> Product) HookState
     \<Rightarrow> (string \<times> Product) HookState \<times> RepositoryCall list" where
  "useProductsByCategory_effect w db category' st =
     (if truthy (JStr category')
      then (fetched (getProductsByCategory w db category') st, [CallGetProductsByCategory category'])
      else (st\<lparr> rows := [] \<rparr>\<lparr> loading := False \<rparr>, []))"

text \<open>The state of a hook at its first render: no rows, loading, no error.\<close>

definition initialHookState :: "'a HookState" where
  "initialHookState = \<lparr> rows = [], loading = True, error = None \<rparr>"

section \<open>What an update may change\<close>

text \<open>
  \<open>onlyChanged docId f before after\<close>: the collection holds the same identifiers in
  the same order, and every document is as before, except that a document stored under
  \<open>docId\<close> may have become \<open>f\<close> of what it was. \<open>stampCustomer w p\<close> (and the same
  for the other entities) is a document with the fields present in the partial payload
  \<open>p\<close> overwritten and the update timestamp set to the server's time.
\<close>

definition onlyChanged :: "string \<Rightarrow> ('d \<Rightarrow> 'd) \<Rightarrow> 'd collection \<Rightarrow> 'd collection \<Rightarrow> bool" where
  "onlyChanged docId f before after \<longleftrightarrow>
     list_all2 (\<lambda>old new. fst new = fst old \<and>
                  (snd new = snd old \<or> (fst old = docId \<and> snd new = f (snd old))))
       before after"

definition stampCustomer :: "World \<Rightarrow> CustomerPartial \<Rightarrow> Customer \<Rightarrow> Customer" where
  "stampCustomer w p d = (applyCustomerPartial p d)\<lparr> Customer.updatedAt := Some (serverTime w) \<rparr>"

definition stampRepair :: "World \<Rightarrow> RepairPartial \<Rightarrow> Repair \<Rightarrow> Repair" where
  "stampRepair w p d = (applyRepairPartial p d)\<lparr> Repair.updatedAt := Some (serverTime w) \<rparr>"

definition stampProduct :: "World \<Rightarrow> ProductPartial \<Rightarrow> Product \<Rightarrow> Product" where
  "stampProduct w p d = (applyProductPartial p d)\<lparr> Product.updatedAt := Some (serverTime w) \<rparr>"

definition stampTechnician :: "World \<Rightarrow> TechnicianPartial \<Rightarrow> Technician \<Rightarrow> Technician" where
  "stampTechnician w p d = (applyTechnicianPartial p d)\<lparr> Technician.updatedAt := Some (serverTime w) \<rparr>"

section \<open>Sample records\<close>

text \<open>
  Concrete records used to evaluate the code: the first customer, technician and
  repair of the seeding utility (\<^verbatim>\<open>sampleCustomers\<close>, \<^verbatim>\<open>sampleTechnicians\<close>,
  \<^verbatim>\<open>sampleRepairs\<close>), and variants of them.
\<close>

definition johnDoe :: Customer where
  "johnDoe = \<lparr> Customer.name = ''John Doe'', Customer.phone = ''123-456-7890'',
      Customer.email = ''john.doe@example.com'', Customer.address = ''123 Main St, Anytown, USA'',
      Customer.createdAt = None, Customer.updatedAt = None \<rparr>"

definition mikeWilson :: Technician where
  "mikeWilson = \<lparr> Technician.tech_id = ''TECH-A1B2C3'', Technician.name = ''Mike Wilson'',
      Technician.specialization = [''Mobile Phones'', ''Tablets''], Technician.availability = True,
      Technician.email = ''mike.wilson@techrepair.com'', Technician.phone = ''555-789-1234'',
      Technician.createdAt = None, Technician.updatedAt = None \<rparr>"

definition iphoneRepair :: Repair where
  "iphoneRepair = \<lparr> Repair.repair_id = ''nov1234'', Repair.customer_id = ''c1'',
      Repair.device_type = ''Mobile Phone'', Repair.brand = ''Apple'', Repair.model = ''iPhone 13'',
      Repair.issue_description = ''Cracked screen and battery not holding charge'',
      Repair.status = ''in-progress'', Repair.created_date = 0, Repair.cost = Fin (14999 / 100),
      Repair.technician_id = Some ''t1'',
      Repair.tasks = [''Screen Replacement'', ''Battery Replacement''],
      Repair.notes = None, Repair.passcode = Some ''1234'', Repair.updatedAt = None \<rparr>"

text \<open>
  A world in which the store answers, it is November and \<^verbatim>\<open>Math.random()\<close> returns
  0.5, which \<^verbatim>\<open>toString(36)\<close> prints as \<^verbatim>\<open>0.i\<close> (digit 18); a store holding the seeded customer,
  repair and technician; the second seeded repair with a cost of -5; and the partial
  payload \<^verbatim>\<open>{ cost: -5 }\<close>.
\<close>

definition seedWorld :: World where
  "seedWorld = \<lparr> readOk = True, writeOk = True, autoId = ''doc1'', serverTime = 7,
      today = Nov, mathRandom = 1 / 2, random36Digits = [18] \<rparr>"

definition seedStore :: Firestore where
  "seedStore = \<lparr> customersCollection = [(''c1'', johnDoe\<lparr>Customer.createdAt := Some 3, Customer.updatedAt := Some 3\<rparr>)],
      repairsCollection = [(''r1'', iphoneRepair)],
      productsCollection = [],
      techniciansCollection = [(''t1'', mikeWilson\<lparr>Technician.createdAt := Some 4\<rparr>)] \<rparr>"

definition negativeCostRepair :: RepairInput where
  "negativeCostRepair = \<lparr> RepairInput.customer_id = ''c1'', RepairInput.device_type = ''Laptop'',
      RepairInput.brand = ''Dell'', RepairInput.model = ''XPS 15'',
      RepairInput.issue_description = ''Not powering on'', RepairInput.status = ''pending'',
      RepairInput.cost = Fin (- 5), RepairInput.technician_id = None,
      RepairInput.tasks = [''Diagnostic''], RepairInput.notes = None,
      RepairInput.passcode = None, RepairInput.updatedAt = None \<rparr>"

definition costOnly :: RepairPartial where
  "costOnly = \<lparr> RepairPartial.repair_id = None, RepairPartial.customer_id = None,
      RepairPartial.device_type = None, RepairPartial.brand = None, RepairPartial.model = None,
      RepairPartial.issue_description = None, RepairPartial.status = None,
      RepairPartial.created_date = None, RepairPartial.cost = Some (Fin (- 5)),
      RepairPartial.technician_id = None, RepairPartial.tasks = None, RepairPartial.notes = None,
      RepairPartial.passcode = None, RepairPartial.updatedAt = None \<rparr>"

text \<open>
  Partial payloads that set one field each, and a world in which \<^verbatim>\<open>Math.random()\<close>
  returns \<open>1/65536\<close>, printed by \<^verbatim>\<open>toString(36)\<close> as \<^verbatim>\<open>0.000pmn29\<close>.
\<close>

definition phoneOnly :: CustomerPartial where
  "phoneOnly = \<lparr> CustomerPartial.name = None, CustomerPartial.phone = Some ''555-000-1111'',
      CustomerPartial.email = None, CustomerPartial.address = None,
      CustomerPartial.createdAt = None, CustomerPartial.updatedAt = None \<rparr>"

definition quantityOnly :: ProductPartial where
  "quantityOnly = \<lparr> ProductPartial.product_id = None, ProductPartial.name = None,
      ProductPartial.category = None, ProductPartial.quantity = Some (Fin 24),
      ProductPartial.price = None, ProductPartial.supplier = None,
      ProductPartial.description = None, ProductPartial.sku = None,
      ProductPartial.createdAt = None, ProductPartial.updatedAt = None \<rparr>"

definition unavailable :: TechnicianPartial where
  "unavailable = \<lparr> TechnicianPartial.tech_id = None, TechnicianPartial.name = None,
      TechnicianPartial.specialization = None, TechnicianPartial.availability = Some False,
      TechnicianPartial.email = None, TechnicianPartial.phone = None,
      TechnicianPartial.createdAt = None, TechnicianPartial.updatedAt = None \<rparr>"

definition longWorld :: World where
  "longWorld = \<lparr> readOk = True, writeOk = True, autoId = ''doc2'', serverTime = 8,
      today = Sep, mathRandom = 1 / 65536, random36Digits = [0, 0, 0, 25, 22, 23, 2, 9] \<rparr>"

text \<open>
  Invalid payloads: a technician without specialization, a product with a negative
  price, and partial payloads that blank the brand of a repair and the phone of a
  customer.
\<close>

definition blankBrand :: RepairPartial where
  "blankBrand = \<lparr> RepairPartial.repair_id = None, RepairPartial.customer_id = None,
      RepairPartial.device_type = None, RepairPartial.brand = Some ''   '', RepairPartial.model = None,
      RepairPartial.issue_description = None, RepairPartial.status = None,
      RepairPartial.created_date = None, RepairPartial.cost = None,
      RepairPartial.technician_id = None, RepairPartial.tasks = None, RepairPartial.notes = None,
      RepairPartial.passcode = None, RepairPartial.updatedAt = None \<rparr>"

definition blankPhone :: CustomerPartial where
  "blankPhone = \<lparr> CustomerPartial.name = None, CustomerPartial.phone = Some ''   '',
      CustomerPartial.email = None, CustomerPartial.address = None,
      CustomerPartial.createdAt = None, CustomerPartial.updatedAt = None \<rparr>"

definition noSpecialization :: TechnicianInput where
  "noSpecialization = \<lparr> TechnicianInput.name = ''Mike Wilson'', TechnicianInput.specialization = [],
      TechnicianInput.availability = True, TechnicianInput.email = ''mike.wilson@techrepair.com'',
      TechnicianInput.phone = ''555-789-1234'', TechnicianInput.createdAt = None,
      TechnicianInput.updatedAt = None \<rparr>"

definition negativePriceProduct :: ProductInput where
  "negativePriceProduct = \<lparr> ProductInput.name = ''Anti-Static Wrist Strap'',
      ProductInput.category = ''Tools'', ProductInput.quantity = Fin 50,
      ProductInput.price = Fin (- 1), ProductInput.supplier = ''Tech Tools'',
      ProductInput.description = None, ProductInput.sku = Some ''TL-ANTST-01'',
      ProductInput.createdAt = None, ProductInput.updatedAt = None \<rparr>"

text \<open>
  What the specification says rejects a repair: an empty or white-space-only
  \<^verbatim>\<open>customer_id\<close>, \<^verbatim>\<open>device_type\<close>, \<^verbatim>\<open>brand\<close>, \<^verbatim>\<open>model\<close> or \<^verbatim>\<open>status\<close>, a
  cost below 0, no task, or a status outside the three enumerated values.
\<close>

definition rejectedBySpec :: "Repair \<Rightarrow> bool" where
  "rejectedBySpec r \<longleftrightarrow>
     list_all isWhiteSpace (Repair.customer_id r) \<or>
     list_all isWhiteSpace (Repair.device_type r) \<or>
     list_all isWhiteSpace (Repair.brand r) \<or>
     list_all isWhiteSpace (Repair.model r) \<or>
     list_all isWhiteSpace (Repair.status r) \<or>
     ltZero (Repair.cost r) \<or>
     Repair.tasks r = [] \<or>
     Repair.status r \<notin> set statusValues"

section \<open>Properties of the validation functions\<close>

lemma dropWhile_all_left: "list_all P (dropWhile P xs) \<Longrightarrow> dropWhile P xs = []"
  by (induction xs) (auto split: if_splits)

lemma trim_empty_iff: "trim s = [] \<longleftrightarrow> list_all isWhiteSpace s"
proof
  assume "trim s = []"
  then have "list_all isWhiteSpace (dropWhile isWhiteSpace s)"
    by (simp add: trim_def dropWhile_eq_Nil_conv list_all_iff)
  then have "dropWhile isWhiteSpace s = []"
    by (rule dropWhile_all_left)
  then show "list_all isWhiteSpace s"
    by (simp add: dropWhile_eq_Nil_conv list_all_iff)
next
  assume "list_all isWhiteSpace s"
  then have dw: "dropWhile isWhiteSpace s = []"
    by (simp add: dropWhile_eq_Nil_conv list_all_iff)
  show "trim s = []"
    unfolding trim_def dw by simp
qed

lemma acceptsEmpty_lang: "acceptsEmpty r \<longleftrightarrow> [] \<in> lang r"
  by (induction r) (auto intro: star.star_empty)

lemma star_cons:
  "c # w \<in> star A \<longleftrightarrow> (\<exists>u v. w = u @ v \<and> c # u \<in> A \<and> v \<in> star A)"
proof
  assume "c # w \<in> star A"
  then show "\<exists>u v. w = u @ v \<and> c # u \<in> A \<and> v \<in> star A"
  proof (induction "c # w" arbitrary: w rule: star.induct)
    case (star_more u v)
    show ?case
    proof (cases u)
      case Nil
      with star_more show ?thesis by simp
    next
      case (Cons a u')
      with star_more.hyps show ?thesis by auto
    qed
  qed
next
  assume "\<exists>u v. w = u @ v \<and> c # u \<in> A \<and> v \<in> star A"
  then obtain u v where "w = u @ v" "c # u \<in> A" "v \<in> star A" by blast
  then show "c # w \<in> star A"
    using star.star_more [of "c # u" A v] by simp
qed

lemma lang_consume: "w \<in> lang (consume c r) \<longleftrightarrow> c # w \<in> lang r"
proof (induction r arbitrary: w)
  case (RSeq r s)
  then show ?case
    by (auto simp: acceptsEmpty_lang Cons_eq_append_conv)
next
  case (RStar r)
  then show ?case
    by (auto simp: star_cons)
qed auto

lemma test_lang: "test r w \<longleftrightarrow> w \<in> lang r"
  by (induction w arbitrary: r) (simp_all add: acceptsEmpty_lang lang_consume)

lemma star_class: "star {[c] | c. P c} = {w. list_all P w}"
proof -
  have "w \<in> star {[c] | c. P c} \<Longrightarrow> list_all P w" for w
    by (induction rule: star.induct) auto
  moreover have "list_all P w \<Longrightarrow> w \<in> star {[c] | c. P c}" for w
  proof (induction w)
    case Nil
    show ?case by (rule star.star_empty)
  next
    case (Cons a w)
    then have "[a] @ w \<in> star {[c] | c. P c}"
      by (intro star.star_more) auto
    then show ?case by simp
  qed
  ultimately show ?thesis by blast
qed

lemma lang_plus_class: "lang (RPlus (RClass P)) = {w. w \<noteq> [] \<and> list_all P w}"
proof (intro set_eqI iffI)
  fix w
  assume "w \<in> lang (RPlus (RClass P))"
  then obtain c v where "w = [c] @ v" "P c" "list_all P v"
    by (auto simp: RPlus_def star_class)
  then show "w \<in> {w. w \<noteq> [] \<and> list_all P w}"
    by simp
next
  fix w
  assume "w \<in> {w. w \<noteq> [] \<and> list_all P w}"
  then obtain c v where w: "w = c # v" "P c" "list_all P v"
    by (cases w) auto
  have "[c] \<in> lang (RClass P)"
    using w by simp
  moreover have "v \<in> lang (RStar (RClass P))"
    using w by (simp add: star_class)
  ultimately have "[c] @ v \<in> lang (RSeq (RClass P) (RStar (RClass P)))"
    unfolding lang.simps(4) by blast
  then show "w \<in> lang (RPlus (RClass P))"
    by (simp add: RPlus_def w)
qed

lemma lang_emailRegex:
  "lang emailRegex =
     {user @ ''@'' @ domain @ ''.'' @ tld | user domain tld.
        user \<noteq> [] \<and> domain \<noteq> [] \<and> tld \<noteq> [] \<and>
        list_all notSpaceAt user \<and> list_all notSpaceAt domain \<and> list_all notSpaceAt tld}"
  unfolding emailRegex_def lang.simps(4) lang_plus_class
  by (auto simp: RChar_def) blast+

lemma validateEmail_iff: "validateEmail s \<longleftrightarrow> emailShape s"
  unfolding validateEmail_def test_lang lang_emailRegex emailShape_def by blast

lemma validateRequired_JStr: "validateRequired (JStr s) \<longleftrightarrow> \<not> list_all isWhiteSpace s"
  by (simp add: validateRequired_def trim_empty_iff)

lemma validatePositiveNumber_JNum: "validatePositiveNumber (JNum n) \<longleftrightarrow> geZero n"
  by (simp add: validatePositiveNumber_def)

lemma not_geZero_iff: "\<not> geZero n \<longleftrightarrow> ltZero n \<or> n = NaN"
  by (cases n) auto

lemmas email_eval = validateEmail_def emailRegex_def RPlus_def RChar_def notSpaceAt_def isWhiteSpace_def

lemma johnDoe_email: "validateEmail ''john.doe@example.com''"
  by (simp add: email_eval)

lemma mikeWilson_email: "validateEmail ''mike.wilson@techrepair.com''"
  by (simp add: email_eval)

text \<open>
  Claim C10. The required-field predicate returns false exactly for undefined, null
  and the strings that are empty after trimming (the strings made of white space
  only). Every other value is accepted as present, in particular the number 0, the
  boolean false and the empty array.
\<close>

theorem validateRequired_false_iff:
  "(validateRequired v = False \<longleftrightarrow>
      v = JUndefined \<or> v = JNull \<or> (\<exists>s. v = JStr s \<and> trim s = [] \<and> list_all isWhiteSpace s))
   \<and> validateRequired (JNum (Fin 0)) = True
   \<and> validateRequired (JNum n) = True
   \<and> validateRequired (JBool False) = True
   \<and> validateRequired (JBool b) = True
   \<and> validateRequired (JArr []) = True
   \<and> validateRequired (JArr xs) = True
   \<and> validateRequired (JObj kvs) = True"
  by (cases v) (auto simp: validateRequired_def trim_empty_iff)

text \<open>
  Claim C5. The customer validator returns \<open>valid = false\<close> exactly when the name is
  empty or white space only, or the phone is, or the email is present (a non-empty
  string) and does not have the shape \<^verbatim>\<open>user@domain.tld\<close>. Every failed rule adds its
  own entry to the error list, whatever the other rules found.
\<close>

theorem validateCustomer_spec:
  "(valid (validateCustomer c) = False \<longleftrightarrow>
      list_all isWhiteSpace (Customer.name c) \<or>
      list_all isWhiteSpace (Customer.phone c) \<or>
      (Customer.email c \<noteq> [] \<and> \<not> emailShape (Customer.email c)))
   \<and> errors (validateCustomer c) =
       (if list_all isWhiteSpace (Customer.name c) then [''Name is required''] else []) @
       (if list_all isWhiteSpace (Customer.phone c) then [''Phone is required''] else []) @
       (if Customer.email c \<noteq> [] \<and> \<not> emailShape (Customer.email c)
        then [''Email format is invalid''] else [])"
  by (simp add: validateCustomer_def pushIf_def validateRequired_JStr validateEmail_iff)

text \<open>
  Claim C1 at a failing input. A repair whose status is \<^verbatim>\<open>shipped\<close>, with the other
  fields of the seeded repair, is accepted by \<^verbatim>\<open>validateRepair\<close>: the validator only
  asks for a non-blank status and never compares it with \<^verbatim>\<open>pending\<close>,
  \<^verbatim>\<open>in-progress\<close>, \<^verbatim>\<open>completed\<close>, although the specification's rule rejects the record.
\<close>

theorem validateRepair_accepts_unlisted_status:
  "valid (validateRepair (iphoneRepair\<lparr>Repair.status := ''shipped''\<rparr>)) = True
   \<and> errors (validateRepair (iphoneRepair\<lparr>Repair.status := ''shipped''\<rparr>)) = []
   \<and> Repair.status (iphoneRepair\<lparr>Repair.status := ''shipped''\<rparr>) \<noteq> []
   \<and> Repair.status (iphoneRepair\<lparr>Repair.status := ''shipped''\<rparr>) \<notin> set statusValues
   \<and> rejectedBySpec (iphoneRepair\<lparr>Repair.status := ''shipped''\<rparr>)"
  by (simp add: validateRepair_def pushIf_def validateRequired_JStr validatePositiveNumber_JNum
      iphoneRepair_def statusValues_def rejectedBySpec_def isWhiteSpace_def)

theorem validateRepair_accepts_unlisted_status_witness:
  "valid (validateRepair (iphoneRepair\<lparr>Repair.status := ''shipped''\<rparr>)) = True
   \<and> ''shipped'' \<notin> set statusValues"
  using validateRepair_accepts_unlisted_status by (simp add: iphoneRepair_def)

text \<open>
  The rules \<^verbatim>\<open>validateRepair\<close> does apply, for every record: a blank required field, a
  cost that is not a number at least 0 (below 0, or NaN), or an empty task list.
\<close>

lemma validateRepair_rules:
  "valid (validateRepair r) = False \<longleftrightarrow>
      list_all isWhiteSpace (Repair.customer_id r) \<or>
      list_all isWhiteSpace (Repair.device_type r) \<or>
      list_all isWhiteSpace (Repair.brand r) \<or>
      list_all isWhiteSpace (Repair.model r) \<or>
      list_all isWhiteSpace (Repair.status r) \<or>
      (ltZero (Repair.cost r) \<or> Repair.cost r = NaN) \<or>
      Repair.tasks r = []"
  by (simp add: validateRepair_def pushIf_def validateRequired_JStr
      validatePositiveNumber_JNum not_geZero_iff)

text \<open>
  Claim C8. For a customer or a technician whose email is the empty string, the entry
  \<^verbatim>\<open>Email format is invalid\<close> is not among the errors, and the record is valid exactly
  when the other rules hold: the empty email never makes validation fail.
\<close>

theorem empty_email_not_reported:
  "(Customer.email c = [] \<longrightarrow>
      ''Email format is invalid'' \<notin> set (errors (validateCustomer c)) \<and>
      (valid (validateCustomer c) \<longleftrightarrow>
         \<not> list_all isWhiteSpace (Customer.name c) \<and> \<not> list_all isWhiteSpace (Customer.phone c)))
   \<and> (Technician.email t = [] \<longrightarrow>
      ''Email format is invalid'' \<notin> set (errors (validateTechnician t)) \<and>
      (valid (validateTechnician t) \<longleftrightarrow>
         \<not> list_all isWhiteSpace (Technician.name t) \<and> \<not> list_all isWhiteSpace (Technician.phone t)
         \<and> Technician.specialization t \<noteq> []))"
  by (simp add: validateCustomer_def validateTechnician_def pushIf_def validateRequired_JStr)

theorem empty_email_not_reported_witness:
  "Customer.email (johnDoe\<lparr>Customer.email := []\<rparr>) = []
   \<and> ''Email format is invalid'' \<notin> set (errors (validateCustomer (johnDoe\<lparr>Customer.email := []\<rparr>)))
   \<and> valid (validateCustomer (johnDoe\<lparr>Customer.email := []\<rparr>))
   \<and> Technician.email (mikeWilson\<lparr>Technician.email := []\<rparr>) = []
   \<and> ''Email format is invalid'' \<notin> set (errors (validateTechnician (mikeWilson\<lparr>Technician.email := []\<rparr>)))
   \<and> valid (validateTechnician (mikeWilson\<lparr>Technician.email := []\<rparr>))"
  using empty_email_not_reported
    [of "johnDoe\<lparr>Customer.email := []\<rparr>" "mikeWilson\<lparr>Technician.email := []\<rparr>"]
  by (simp add: johnDoe_def mikeWilson_def isWhiteSpace_def)

section \<open>Properties of the repositories and hooks\<close>

text \<open>
  Claim C6. Whatever the store holds, each query by field (repairs by status, repairs
  by customer, products by category, available technicians) returns exactly the
  documents of the full listing whose field equals the value, in the listing's order.
  The result is non-empty only when the store answers the read and some document
  matches: it is the empty list when nothing matches and when the read fails.
\<close>

theorem queryByField_filters_list:
  "getRepairsByStatus w db s = filter (\<lambda>doc. Repair.status (snd doc) = s) (getRepairs w db)
   \<and> getRepairsByCustomerId w db c = filter (\<lambda>doc. Repair.customer_id (snd doc) = c) (getRepairs w db)
   \<and> getProductsByCategory w db k = filter (\<lambda>doc. Product.category (snd doc) = k) (getProducts w db)
   \<and> getAvailableTechnicians w db
         = filter (\<lambda>doc. Technician.availability (snd doc) = True) (getTechnicians w db)
   \<and> (getRepairsByStatus w db s \<noteq> [] \<longleftrightarrow>
         readOk w \<and> (\<exists>doc \<in> set (repairsCollection db). Repair.status (snd doc) = s))
   \<and> (getRepairsByCustomerId w db c \<noteq> [] \<longleftrightarrow>
         readOk w \<and> (\<exists>doc \<in> set (repairsCollection db). Repair.customer_id (snd doc) = c))
   \<and> (getProductsByCategory w db k \<noteq> [] \<longleftrightarrow>
         readOk w \<and> (\<exists>doc \<in> set (productsCollection db). Product.category (snd doc) = k))
   \<and> (getAvailableTechnicians w db \<noteq> [] \<longleftrightarrow>
         readOk w \<and> (\<exists>doc \<in> set (techniciansCollection db). Technician.availability (snd doc) = True))"
  by (simp add: getRepairsByStatus_def getRepairsByCustomerId_def getProductsByCategory_def
      getAvailableTechnicians_def getRepairs_def getProducts_def getTechnicians_def
      getDocs_def getDocsWhere_def filter_empty_conv)

text \<open>
  Claim C2 at a failing input. The validation error for a repair whose cost is -5 is
  thrown inside the \<^verbatim>\<open>try\<close> block of \<^verbatim>\<open>addRepair\<close>; its \<^verbatim>\<open>catch\<close> clause turns it
  into \<^verbatim>\<open>null\<close>, so the caller gets no exception and no error list (and nothing is
  written). The same happens in \<^verbatim>\<open>addProduct\<close> and \<^verbatim>\<open>addTechnician\<close>.
  \<^verbatim>\<open>addCustomer\<close> validates before its \<^verbatim>\<open>try\<close> block: there the exception with the
  error list reaches the caller.
\<close>

theorem addRepair_returns_null_on_invalid:
  "addRepair_try w db negativeCostRepair = Inl (Error ''Validation failed: Cost must be a positive number'')
   \<and> addRepair w db negativeCostRepair = (db, Inr None)
   \<and> addProduct_try w db negativePriceProduct
       = Inl (Error ''Validation failed: Price must be a positive number'')
   \<and> addProduct w db negativePriceProduct = (db, Inr None)
   \<and> addTechnician_try w db noSpecialization
       = Inl (Error ''Validation failed: At least one specialization is required'')
   \<and> addTechnician w db noSpecialization = (db, Inr None)
   \<and> addCustomer w db (johnDoe\<lparr>Customer.name := []\<rparr>)
       = (db, Inl (Error ''Validation failed: Name is required''))"
  by (simp add: addRepair_def addRepair_try_def addProduct_def addProduct_try_def
      addTechnician_def addTechnician_try_def addCustomer_def
      validateRepair_def validateProduct_def validateTechnician_def validateCustomer_def
      pushIf_def validateRequired_JStr validatePositiveNumber_JNum validationFailed_def
      negativeCostRepair_def negativePriceProduct_def noSpecialization_def johnDoe_def
      isWhiteSpace_def johnDoe_email mikeWilson_email)

text \<open>
  Claim C3 at a failing input. \<^verbatim>\<open>updateRepair\<close> never calls \<^verbatim>\<open>validateRepair\<close>: the
  partial payloads \<^verbatim>\<open>{ brand: '   ' }\<close> and \<^verbatim>\<open>{ cost: -5 }\<close> are written into the stored
  repair and the call returns \<^verbatim>\<open>true\<close>, although the record now stored fails
  validation. \<^verbatim>\<open>updateCustomer\<close> validates the merged record: a blank phone is refused,
  nothing is written and the call returns \<^verbatim>\<open>false\<close>.
\<close>

theorem updateRepair_persists_invalid:
  "updateRepair seedWorld seedStore ''r1'' blankBrand
     = (seedStore\<lparr>repairsCollection :=
          [(''r1'', iphoneRepair\<lparr>Repair.brand := ''   '', Repair.updatedAt := Some 7\<rparr>)]\<rparr>, True)
   \<and> valid (validateRepair (iphoneRepair\<lparr>Repair.brand := ''   '', Repair.updatedAt := Some 7\<rparr>)) = False
   \<and> updateRepair seedWorld seedStore ''r1'' costOnly
     = (seedStore\<lparr>repairsCollection :=
          [(''r1'', iphoneRepair\<lparr>Repair.cost := Fin (- 5), Repair.updatedAt := Some 7\<rparr>)]\<rparr>, True)
   \<and> valid (validateRepair (iphoneRepair\<lparr>Repair.cost := Fin (- 5), Repair.updatedAt := Some 7\<rparr>)) = False
   \<and> updateCustomer seedWorld seedStore ''c1'' blankPhone = (seedStore, False)
   \<and> updateCustomer_try seedWorld seedStore ''c1'' blankPhone
       = Inl (Error ''Validation failed: Phone is required'')"
  by (simp add: updateRepair_def updateRepair_try_def updateCustomer_def updateCustomer_try_def
      getDoc_def updateDoc_def seedWorld_def seedStore_def
      costOnly_def blankBrand_def blankPhone_def applyRepairPartial_def applyCustomerPartial_def
      overlay_def overlayOptional_def iphoneRepair_def johnDoe_def
      validateRepair_def validateCustomer_def validationFailed_def
      pushIf_def validateRequired_JStr validatePositiveNumber_JNum isWhiteSpace_def johnDoe_email)


theorem updateRepair_persists_invalid_witness:
  "snd (updateRepair seedWorld seedStore ''r1'' blankBrand) = True
   \<and> map (\<lambda>doc. Repair.brand (snd doc))
         (repairsCollection (fst (updateRepair seedWorld seedStore ''r1'' blankBrand))) = [''   '']
   \<and> snd (updateRepair seedWorld seedStore ''r1'' costOnly) = True
   \<and> map (\<lambda>doc. Repair.cost (snd doc))
         (repairsCollection (fst (updateRepair seedWorld seedStore ''r1'' costOnly))) = [Fin (- 5)]"
  using updateRepair_persists_invalid by simp

text \<open>
  Claim C4 at a failing input. With the empty string as its parameter, the effect of
  \<^verbatim>\<open>useRepairsByStatus\<close> calls \<^verbatim>\<open>getRepairsByStatus\<close>; the effects of the other two
  hooks make no repository call.
\<close>

theorem useRepairsByStatus_calls_repository:
  "snd (useEffect (useRepairsByStatus_effect w db) None [] st) = [CallGetRepairsByStatus []]
   \<and> snd (useEffect (useRepairsByCustomerId_effect w db) None [] st) = []
   \<and> snd (useEffect (useProductsByCategory_effect w db) None [] st') = []"
  by (simp add: useEffect_def useRepairsByStatus_effect_def useRepairsByCustomerId_effect_def
      useProductsByCategory_effect_def)

section \<open>Updates leave the creation timestamp alone\<close>

lemma onlyChanged_refl: "onlyChanged i f coll coll"
  by (simp add: onlyChanged_def list_all2_same)

lemma updateFirst_onlyChanged:
  "map_of coll i = Some d0 \<Longrightarrow> g d0 = f d0 \<Longrightarrow> onlyChanged i f coll (updateFirst i g coll)"
proof (induction coll)
  case Nil
  then show ?case by simp
next
  case (Cons x rest)
  obtain k d where x: "x = (k, d)" by (cases x)
  show ?case
  proof (cases "k = i")
    case True
    with Cons.prems x show ?thesis
      by (simp add: onlyChanged_def list_all2_same)
  next
    case False
    with Cons x show ?thesis
      by (simp add: onlyChanged_def)
  qed
qed

lemma onlyChanged_map:
  "onlyChanged i f before after \<Longrightarrow> (\<And>d. h (f d) = h d) \<Longrightarrow>
     map (\<lambda>doc. (fst doc, h (snd doc))) after = map (\<lambda>doc. (fst doc, h (snd doc))) before"
  unfolding onlyChanged_def
  by (induction before after rule: list_all2_induct) auto

lemma updateCustomer_onlyChanged:
  "onlyChanged i (stampCustomer w p)
     (customersCollection db) (customersCollection (fst (updateCustomer w db i p)))
   \<and> repairsCollection (fst (updateCustomer w db i p)) = repairsCollection db
   \<and> productsCollection (fst (updateCustomer w db i p)) = productsCollection db
   \<and> techniciansCollection (fst (updateCustomer w db i p)) = techniciansCollection db"
proof -
  have same: "applyCustomerPartial (customerFields (stampCustomer w p d)) d = stampCustomer w p d" for d
    by (simp add: applyCustomerPartial_def customerFields_def stampCustomer_def overlay_def overlayOptional_def
        split: option.splits)
  show ?thesis
    by (auto simp: updateCustomer_def updateCustomer_try_def getDoc_def updateDoc_def Let_def
        onlyChanged_refl stampCustomer_def [symmetric] same
        intro!: updateFirst_onlyChanged
        split: sum.splits option.splits if_splits)
qed

lemma updateRepair_onlyChanged:
  "onlyChanged i (stampRepair w p)
     (repairsCollection db) (repairsCollection (fst (updateRepair w db i p)))
   \<and> customersCollection (fst (updateRepair w db i p)) = customersCollection db
   \<and> productsCollection (fst (updateRepair w db i p)) = productsCollection db
   \<and> techniciansCollection (fst (updateRepair w db i p)) = techniciansCollection db"
proof -
  have same: "applyRepairPartial (p\<lparr> RepairPartial.updatedAt := Some (serverTime w) \<rparr>) d = stampRepair w p d" for d
    by (simp add: applyRepairPartial_def stampRepair_def overlayOptional_def)
  show ?thesis
    by (auto simp: updateRepair_def updateRepair_try_def getDoc_def updateDoc_def Let_def
        onlyChanged_refl same
        intro!: updateFirst_onlyChanged
        split: sum.splits option.splits if_splits)
qed

lemma updateProduct_onlyChanged:
  "onlyChanged i (stampProduct w p)
     (productsCollection db) (productsCollection (fst (updateProduct w db i p)))
   \<and> customersCollection (fst (updateProduct w db i p)) = customersCollection db
   \<and> repairsCollection (fst (updateProduct w db i p)) = repairsCollection db
   \<and> techniciansCollection (fst (updateProduct w db i p)) = techniciansCollection db"
proof -
  have same: "applyProductPartial (p\<lparr> ProductPartial.updatedAt := Some (serverTime w) \<rparr>) d = stampProduct w p d" for d
    by (simp add: applyProductPartial_def stampProduct_def overlayOptional_def)
  show ?thesis
    by (auto simp: updateProduct_def updateProduct_try_def getDoc_def updateDoc_def Let_def
        onlyChanged_refl same
        intro!: updateFirst_onlyChanged
        split: sum.splits option.splits if_splits)
qed

lemma updateTechnician_onlyChanged:
  "onlyChanged i (stampTechnician w p)
     (techniciansCollection db) (techniciansCollection (fst (updateTechnician w db i p)))
   \<and> customersCollection (fst (updateTechnician w db i p)) = customersCollection db
   \<and> repairsCollection (fst (updateTechnician w db i p)) = repairsCollection db
   \<and> productsCollection (fst (updateTechnician w db i p)) = productsCollection db"
proof -
  have same: "applyTechnicianPartial (p\<lparr> TechnicianPartial.updatedAt := Some (serverTime w) \<rparr>) d = stampTechnician w p d" for d
    by (simp add: applyTechnicianPartial_def stampTechnician_def overlayOptional_def)
  show ?thesis
    by (auto simp: updateTechnician_def updateTechnician_try_def getDoc_def updateDoc_def Let_def
        onlyChanged_refl same
        intro!: updateFirst_onlyChanged
        split: sum.splits option.splits if_splits)
qed

lemma stamp_keeps_creation:
  "CustomerPartial.createdAt cp = None \<Longrightarrow> Customer.createdAt (stampCustomer w cp c) = Customer.createdAt c"
  "RepairPartial.created_date rp = None \<Longrightarrow> Repair.created_date (stampRepair w rp r) = Repair.created_date r"
  "ProductPartial.createdAt pp = None \<Longrightarrow> Product.createdAt (stampProduct w pp p) = Product.createdAt p"
  "TechnicianPartial.createdAt tp = None \<Longrightarrow> Technician.createdAt (stampTechnician w tp t) = Technician.createdAt t"
  by (simp_all add: stampCustomer_def stampRepair_def stampProduct_def stampTechnician_def
      applyCustomerPartial_def applyRepairPartial_def applyProductPartial_def applyTechnicianPartial_def
      overlay_def overlayOptional_def)

text \<open>
  Claim C9. For each of the four entities, an update whose partial payload has no
  creation-timestamp field (\<^verbatim>\<open>createdAt\<close>, or \<^verbatim>\<open>created_date\<close> for repairs) leaves the
  creation timestamp of every stored document as it was, whether the update succeeds or
  not. Whatever the payload, the collection keeps its documents, and a document is
  either unchanged or the one updated, with the supplied fields overwritten and the
  update timestamp set.
\<close>

theorem update_keeps_creation_timestamp:
  "(CustomerPartial.createdAt cp = None \<longrightarrow>
      map (\<lambda>doc. (fst doc, Customer.createdAt (snd doc))) (customersCollection (fst (updateCustomer w db cid cp)))
        = map (\<lambda>doc. (fst doc, Customer.createdAt (snd doc))) (customersCollection db))
   \<and> (RepairPartial.created_date rp = None \<longrightarrow>
      map (\<lambda>doc. (fst doc, Repair.created_date (snd doc))) (repairsCollection (fst (updateRepair w db rid rp)))
        = map (\<lambda>doc. (fst doc, Repair.created_date (snd doc))) (repairsCollection db))
   \<and> (ProductPartial.createdAt pp = None \<longrightarrow>
      map (\<lambda>doc. (fst doc, Product.createdAt (snd doc))) (productsCollection (fst (updateProduct w db pid pp)))
        = map (\<lambda>doc. (fst doc, Product.createdAt (snd doc))) (productsCollection db))
   \<and> (TechnicianPartial.createdAt tp = None \<longrightarrow>
      map (\<lambda>doc. (fst doc, Technician.createdAt (snd doc))) (techniciansCollection (fst (updateTechnician w db tid tp)))
        = map (\<lambda>doc. (fst doc, Technician.createdAt (snd doc))) (techniciansCollection db))
   \<and> onlyChanged cid (stampCustomer w cp)
         (customersCollection db) (customersCollection (fst (updateCustomer w db cid cp)))
   \<and> onlyChanged rid (stampRepair w rp)
         (repairsCollection db) (repairsCollection (fst (updateRepair w db rid rp)))
   \<and> onlyChanged pid (stampProduct w pp)
         (productsCollection db) (productsCollection (fst (updateProduct w db pid pp)))
   \<and> onlyChanged tid (stampTechnician w tp)
         (techniciansCollection db) (techniciansCollection (fst (updateTechnician w db tid tp)))"
  using updateCustomer_onlyChanged [of cid w cp db] updateRepair_onlyChanged [of rid w rp db]
    updateProduct_onlyChanged [of pid w pp db] updateTechnician_onlyChanged [of tid w tp db]
  by (auto intro!: onlyChanged_map simp: stamp_keeps_creation)

theorem update_keeps_creation_timestamp_witness:
  "CustomerPartial.createdAt phoneOnly = None
   \<and> RepairPartial.created_date costOnly = None
   \<and> ProductPartial.createdAt quantityOnly = None
   \<and> TechnicianPartial.createdAt unavailable = None
   \<and> updateCustomer seedWorld seedStore ''c1'' phoneOnly
       = (seedStore\<lparr>customersCollection :=
            [(''c1'', johnDoe\<lparr>Customer.phone := ''555-000-1111'', Customer.createdAt := Some 3,
                              Customer.updatedAt := Some 7\<rparr>)]\<rparr>, True)
   \<and> map (\<lambda>doc. (fst doc, Customer.createdAt (snd doc)))
         (customersCollection (fst (updateCustomer seedWorld seedStore ''c1'' phoneOnly)))
       = [(''c1'', Some 3)]
   \<and> map (\<lambda>doc. (fst doc, Repair.created_date (snd doc)))
         (repairsCollection (fst (updateRepair seedWorld seedStore ''r1'' costOnly)))
       = [(''r1'', 0)]
   \<and> map (\<lambda>doc. (fst doc, Product.createdAt (snd doc)))
         (productsCollection (fst (updateProduct seedWorld seedStore ''p1'' quantityOnly)))
       = []
   \<and> map (\<lambda>doc. (fst doc, Technician.createdAt (snd doc)))
         (techniciansCollection (fst (updateTechnician seedWorld seedStore ''t1'' unavailable)))
       = [(''t1'', Some 4)]
   \<and> snd (updateTechnician seedWorld seedStore ''t1'' unavailable) = True"
  using update_keeps_creation_timestamp
    [of phoneOnly seedWorld seedStore "''c1''" costOnly "''r1''" quantityOnly "''p1''" unavailable "''t1''"]
  by (simp add: phoneOnly_def costOnly_def quantityOnly_def unavailable_def seedWorld_def seedStore_def
      updateCustomer_def updateCustomer_try_def updateTechnician_def updateTechnician_try_def
      getDoc_def updateDoc_def
      applyCustomerPartial_def customerFields_def applyTechnicianPartial_def overlay_def overlayOptional_def
      johnDoe_def mikeWilson_def iphoneRepair_def
      validateCustomer_def pushIf_def validateRequired_JStr isWhiteSpace_def johnDoe_email)


section \<open>Generated identifiers\<close>

lemma roundHalfEven_ge: "of_int n \<le> x \<Longrightarrow> n \<le> roundHalfEven x"
  unfolding roundHalfEven_def Let_def by (auto simp: le_floor_iff) linarith+

lemma roundHalfEven_le: "x \<le> of_int n \<Longrightarrow> roundHalfEven x \<le> n"
proof -
  assume a: "x \<le> of_int n"
  show ?thesis
  proof (cases "x = of_int n")
    case True
    then show ?thesis by (simp add: roundHalfEven_def)
  next
    case False
    with a have "x < of_int n" by simp
    then have "\<lfloor>x\<rfloor> < n" by (simp add: floor_less_iff)
    then show ?thesis
      unfolding roundHalfEven_def Let_def by auto
  qed
qed

lemma roundHalfEven_upper: "of_int (roundHalfEven x) \<le> x + 1 / 2"
  unfolding roundHalfEven_def Let_def by (auto simp: not_less; linarith)

lemma binade_bounds:
  assumes "0 < x"
  shows "2 powi (binade x) \<le> x \<and> x < 2 powi (binade x + 1)"
proof (cases "1 \<le> x")
  case True
  then have pos: "0 < \<lfloor>x\<rfloor>" by (simp add: floor_less_iff less_floor_iff)
  define b where "b = bitlen \<lfloor>x\<rfloor>"
  from bitlen_bounds [OF pos] have bb: "2 ^ nat (b - 1) \<le> \<lfloor>x\<rfloor>" "\<lfloor>x\<rfloor> < 2 ^ nat b"
    by (simp_all add: b_def)
  have b1: "1 \<le> b" using pos bitlen_eq_zero_iff [of "\<lfloor>x\<rfloor>"] bitlen_nonneg [of "\<lfloor>x\<rfloor>"] by (simp add: b_def)
  have "(2::rat) ^ nat (b - 1) \<le> of_int \<lfloor>x\<rfloor>"
    using bb(1) by (metis of_int_le_iff of_int_numeral of_int_power)
  also have "\<dots> \<le> x" by simp
  finally have lo: "(2::rat) ^ nat (b - 1) \<le> x" .
  have "\<lfloor>x\<rfloor> + 1 \<le> 2 ^ nat b" using bb(2) by simp
  then have "of_int (\<lfloor>x\<rfloor> + 1) \<le> (2::rat) ^ nat b"
    by (metis of_int_le_iff of_int_numeral of_int_power)
  moreover have "x < of_int (\<lfloor>x\<rfloor> + 1)" by linarith
  ultimately have hi: "x < (2::rat) ^ nat b" by linarith
  have "binade x = b - 1" using True by (simp add: binade_def b_def)
  moreover have "(2::rat) powi (b - 1) = 2 ^ nat (b - 1)" using b1 by (simp add: power_int_def)
  moreover have "(2::rat) powi (b - 1 + 1) = 2 ^ nat b" using b1 by (simp add: power_int_def)
  ultimately show ?thesis using lo hi by simp
next
  case False
  with assms have x1: "x < 1" by simp
  then have y: "1 < 1 / x" using assms by simp
  define c where "c = \<lceil>1 / x\<rceil>"
  have c2: "2 \<le> c" using y unfolding c_def by linarith
  then have pos: "0 < c - 1" by simp
  define k where "k = bitlen (c - 1)"
  from bitlen_bounds [OF pos] have bb: "2 ^ nat (k - 1) \<le> c - 1" "c - 1 < 2 ^ nat k"
    by (simp_all add: k_def)
  have k1: "1 \<le> k" using pos bitlen_eq_zero_iff [of "c - 1"] bitlen_nonneg [of "c - 1"] by (simp add: k_def)
  have "c \<le> 2 ^ nat k" using bb(2) by simp
  then have "of_int c \<le> (2::rat) ^ nat k"
    by (metis of_int_le_iff of_int_numeral of_int_power)
  moreover have "1 / x \<le> of_int c" unfolding c_def by linarith
  ultimately have up: "1 / x \<le> (2::rat) ^ nat k" by linarith
  have "(2::int) ^ nat (k - 1) < c" using bb(1) by simp
  then have "of_int ((2::int) ^ nat (k - 1)) < 1 / x" unfolding c_def by (simp add: less_ceiling_iff)
  then have lowr: "(2::rat) ^ nat (k - 1) < 1 / x" by simp
  have p1: "(0::rat) < 2 ^ nat k" and p2: "(0::rat) < 2 ^ nat (k - 1)" by simp_all
  from up have lo: "1 / (2::rat) ^ nat k \<le> x"
    using assms p1 by (simp add: field_simps)
  from lowr have hi: "x < 1 / (2::rat) ^ nat (k - 1)"
    using assms p2 by (simp add: field_simps)
  have "binade x = - k" using False by (simp add: binade_def k_def c_def)
  moreover have "(2::rat) powi (- k) = 1 / 2 ^ nat k" using k1 by (simp add: power_int_def field_simps)
  moreover have "(2::rat) powi (- k + 1) = 1 / 2 ^ nat (k - 1)"
  proof (cases "k = 1")
    case True
    then show ?thesis by simp
  next
    case False
    with k1 have "- k + 1 < 0" "nat (- (- k + 1)) = nat (k - 1)" by simp_all
    then show ?thesis by (simp add: power_int_def field_simps)
  qed
  ultimately show ?thesis using lo hi by simp
qed

lemma binade_unique:
  assumes "0 < x" "2 powi e \<le> x" "x < 2 powi (e + 1)"
  shows "binade x = e"
proof (rule ccontr)
  assume ne: "binade x \<noteq> e"
  from binade_bounds [OF assms(1)] have b: "2 powi (binade x) \<le> x" "x < 2 powi (binade x + 1)"
    by simp_all
  show False
  proof (cases "binade x < e")
    case True
    then have "binade x + 1 \<le> e" by simp
    then have "(2::rat) powi (binade x + 1) \<le> 2 powi e"
      by (intro power_int_increasing) simp_all
    with b(2) assms(2) show False by linarith
  next
    case False
    with ne have "e + 1 \<le> binade x" by simp
    then have "(2::rat) powi (e + 1) \<le> 2 powi (binade x)"
      by (intro power_int_increasing) simp_all
    with b(1) assms(3) show False by linarith
  qed
qed

lemma quantum_pos: "0 < quantum x"
  by (simp add: quantum_def)

lemma roundDouble_pos: "0 < x \<Longrightarrow> roundDouble x = quantum x * of_int (roundHalfEven (x / quantum x))"
  by (simp add: roundDouble_def)

lemma roundDouble_nonneg: "0 \<le> x \<Longrightarrow> 0 \<le> roundDouble x"
proof (cases "x = 0")
  case True
  then show ?thesis by (simp add: roundDouble_def)
next
  case False
  assume "0 \<le> x"
  with False have pos: "0 < x" by simp
  have "of_int 0 \<le> x / quantum x" using pos quantum_pos [of x] by simp
  then have "0 \<le> roundHalfEven (x / quantum x)" by (rule roundHalfEven_ge)
  then show ?thesis using quantum_pos [of x] by (simp add: roundDouble_pos [OF pos])
qed

lemma roundDouble_ge_grid:
  assumes "0 < x" "a = of_int m * quantum x" "a \<le> x"
  shows "a \<le> roundDouble x"
proof -
  have "of_int m \<le> x / quantum x"
    using assms quantum_pos [of x] by (simp add: field_simps)
  then have "m \<le> roundHalfEven (x / quantum x)" by (rule roundHalfEven_ge)
  then have "of_int m * quantum x \<le> of_int (roundHalfEven (x / quantum x)) * quantum x"
    using quantum_pos [of x] by simp
  then show ?thesis by (simp add: roundDouble_pos [OF assms(1)] assms(2) mult.commute)
qed

lemma roundDouble_le_grid:
  assumes "0 < x" "a = of_int m * quantum x" "x \<le> a"
  shows "roundDouble x \<le> a"
proof -
  have "x / quantum x \<le> of_int m"
    using assms quantum_pos [of x] by (simp add: field_simps)
  then have "roundHalfEven (x / quantum x) \<le> m" by (rule roundHalfEven_le)
  then have "of_int (roundHalfEven (x / quantum x)) * quantum x \<le> of_int m * quantum x"
    using quantum_pos [of x] by simp
  then show ?thesis by (simp add: roundDouble_pos [OF assms(1)] assms(2) mult.commute)
qed

lemma binade_less:
  assumes "0 < x" "x < 2 powi (e + 1)"
  shows "binade x \<le> e"
proof (rule ccontr)
  assume "\<not> binade x \<le> e"
  then have "e + 1 \<le> binade x" by simp
  then have "(2::rat) powi (e + 1) \<le> 2 powi (binade x)"
    by (intro power_int_increasing) simp_all
  with binade_bounds [OF assms(1)] assms(2) show False by linarith
qed

lemma int_on_grid:
  assumes "0 < x" "x < 2 powi 53"
  shows "\<exists>m. (of_int n :: rat) = of_int m * quantum x"
proof -
  have "binade x \<le> 52" using binade_less [of x 52] assms by simp
  define k where "k = 52 - max (binade x) (- 1022)"
  have k0: "0 \<le> k" using \<open>binade x \<le> 52\<close> by (simp add: k_def)
  have q: "quantum x = 2 powi (- k)" using assms(1) by (simp add: quantum_def k_def)
  have "(2::rat) powi (- k) = 1 / 2 ^ nat k"
    using k0 by (cases "k = 0") (simp_all add: power_int_def field_simps)
  then have "(of_int n :: rat) = of_int (n * 2 ^ nat k) * quantum x"
    by (simp add: q)
  then show ?thesis ..
qed

lemma roundDouble_ge_int:
  assumes "0 < x" "x < 2 powi 53" "of_int n \<le> x"
  shows "of_int n \<le> roundDouble x"
proof -
  from int_on_grid [OF assms(1,2)] obtain m where m: "(of_int n :: rat) = of_int m * quantum x" ..
  from m assms(3) show ?thesis by (rule roundDouble_ge_grid [OF assms(1)])
qed

lemma roundDouble_le_int:
  assumes "0 < x" "x < 2 powi 53" "x \<le> of_int n"
  shows "roundDouble x \<le> of_int n"
proof -
  from int_on_grid [OF assms(1,2)] obtain m where m: "(of_int n :: rat) = of_int m * quantum x" ..
  from m assms(3) show ?thesis by (rule roundDouble_le_grid [OF assms(1)])
qed

lemma quantum_binade13:
  assumes "8192 \<le> x" "x < 16384"
  shows "quantum x = 1 / 2 ^ 39"
proof -
  have "0 < x" using assms by simp
  moreover have "(2::rat) powi 13 \<le> x" using assms by simp
  moreover have "x < (2::rat) powi (13 + 1)" using assms by simp
  ultimately have "binade x = 13" by (rule binade_unique)
  then show ?thesis using \<open>0 < x\<close> by (simp add: quantum_def power_int_def power_one_over)
qed

lemma double_below_one:
  assumes "isDouble r" "0 \<le> r" "r < 1"
  shows "r \<le> 1 - 1 / 2 ^ 53"
proof (cases "r < 1 / 2")
  case True
  then show ?thesis by simp
next
  case False
  then have pos: "0 < r" by simp
  have "(2::rat) powi (- 1) \<le> r" using False by (simp add: power_int_def)
  moreover have "r < (2::rat) powi (- 1 + 1)" using assms by simp
  ultimately have "binade r = - 1" using pos by (intro binade_unique) simp_all
  then have q: "quantum r = 1 / 2 ^ 53" using pos by (simp add: quantum_def power_int_def power_one_over)
  define n where "n = roundHalfEven (r / quantum r)"
  have r: "r = of_int n / 2 ^ 53"
    using assms(1) by (simp add: isDouble_def roundDouble_pos [OF pos] n_def q)
  with assms(3) have "(of_int n :: rat) < 2 ^ 53" by (simp add: field_simps)
  then have "(of_int n :: rat) < of_int (2 ^ 53)" by simp
  then have "n < 2 ^ 53" by (simp only: of_int_less_iff)
  then have "n \<le> 2 ^ 53 - 1" by simp
  then have "(of_int n :: rat) \<le> of_int (2 ^ 53 - 1)" by (simp only: of_int_le_iff)
  then show ?thesis unfolding r by (simp add: field_simps)
qed

lemma randomNum_bounds:
  assumes d: "isDouble r" and r0: "0 \<le> r" and r1: "r < 1"
  shows "1000 \<le> roundDouble (1000 + roundDouble (r * 9000))
         \<and> roundDouble (1000 + roundDouble (r * 9000)) < 10000"
proof -
  define x where "x = r * 9000"
  define p where "p = roundDouble x"
  define s where "s = 1000 + p"
  have rb: "r \<le> 1 - 1 / 2 ^ 53" using d r0 r1 by (rule double_below_one)
  have x0: "0 \<le> x" using r0 by (simp add: x_def)
  have p0: "0 \<le> p" unfolding p_def using x0 by (rule roundDouble_nonneg)
  have s_pos: "0 < s" and s_lo: "of_int 1000 \<le> s" using p0 by (simp_all add: s_def)
  have big: "(10000::rat) < 2 powi 53" by simp
  have p_hi: "p \<le> 10000 - 1000 - 1 / 2 ^ 39"
  proof (cases "x < 8192")
    case True
    show ?thesis
    proof (cases "x = 0")
      case True
      then show ?thesis by (simp add: p_def roundDouble_def)
    next
      case False
      with x0 have xp: "0 < x" by simp
      have "x < 2 powi 53" using True by simp
      moreover have "x \<le> of_int 8192" using True by simp
      ultimately have "p \<le> of_int 8192" unfolding p_def using xp by (intro roundDouble_le_int)
      then show ?thesis by simp
    qed
  next
    case False
    then have x_lo: "8192 \<le> x" by simp
    have x_hi: "x \<le> 9000 - 9000 / 2 ^ 53" using rb by (simp add: x_def)
    then have x_lt: "x < 16384" by simp
    have xp: "0 < x" using x_lo by simp
    have q: "quantum x = 1 / 2 ^ 39" using x_lo x_lt by (rule quantum_binade13)
    define n where "n = roundHalfEven (x / quantum x)"
    have "of_int n \<le> x / quantum x + 1 / 2" unfolding n_def by (rule roundHalfEven_upper)
    also have "\<dots> < of_int (9000 * 2 ^ 39)" using x_hi by (simp add: q)
    finally have "n < 9000 * 2 ^ 39" by (simp only: of_int_less_iff)
    then have "n \<le> 9000 * 2 ^ 39 - 1" by simp
    then have nb: "(of_int n :: rat) \<le> of_int (9000 * 2 ^ 39 - 1)" by (simp only: of_int_le_iff)
    have rd: "roundDouble x = of_int n / 2 ^ 39"
      unfolding n_def by (simp add: roundDouble_pos [OF xp] q)
    have "roundDouble x \<le> 9000 - 1 / 2 ^ 39"
      unfolding rd using nb by (simp add: field_simps)
    then show ?thesis by (simp add: p_def q)
  qed
  then have s_hi: "s \<le> 10000 - 1 / 2 ^ 39" by (simp add: s_def)
  then have s_lt: "s < 2 powi 53" by simp
  have lower: "of_int 1000 \<le> roundDouble s"
    using s_pos s_lt s_lo by (rule roundDouble_ge_int)
  have upper: "roundDouble s < 10000"
  proof (cases "s < 8192")
    case True
    then have "s \<le> of_int 8192" by simp
    with s_pos s_lt have "roundDouble s \<le> of_int 8192" by (intro roundDouble_le_int)
    then show ?thesis by simp
  next
    case False
    then have lo: "8192 \<le> s" by simp
    have lt: "s < 16384" using s_hi by simp
    have q: "quantum s = 1 / 2 ^ 39" using lo lt by (rule quantum_binade13)
    have "s \<le> of_int (10000 * 2 ^ 39 - 1) * quantum s"
      using s_hi by (simp add: q)
    with s_pos have "roundDouble s \<le> of_int (10000 * 2 ^ 39 - 1) * quantum s"
      by (intro roundDouble_le_grid [where m = "10000 * 2 ^ 39 - 1"]) simp_all
    then show ?thesis by (simp add: q)
  qed
  show ?thesis using lower upper by (simp add: s_def p_def x_def)
qed

lemma double_half: "isDouble (1 / 2) \<and> \<lfloor>roundDouble (1000 + roundDouble (1 / 2 * 9000))\<rfloor> = 5500"
  by code_simp

lemma double_small:
  "isDouble (1 / 65536) \<and> \<lfloor>roundDouble (1000 + roundDouble (1 / 65536 * 9000))\<rfloor> = 1000"
  by code_simp

text \<open>
  Rounding matters: at \<^verbatim>\<open>Math.random() = 2001599834386887 / 2^52\<close> the product rounds up to
  4000, so the code computes 5000 where exact arithmetic would give 4999.
\<close>

lemma randomNum_rounds_as_doubles:
  "isDouble (2001599834386887 / 2 ^ 52)
   \<and> \<lfloor>roundDouble (1000 + roundDouble (2001599834386887 / 2 ^ 52 * 9000))\<rfloor> = 5000
   \<and> \<lfloor>1000 + 2001599834386887 / 2 ^ 52 * (9000::rat)\<rfloor> = 4999"
  by code_simp

lemma randomNum_range:
  assumes "isDouble (mathRandom w)" "0 \<le> mathRandom w" "mathRandom w < 1"
  shows "1000 \<le> randomNum w \<and> randomNum w \<le> 9999"
proof -
  from randomNum_bounds [OF assms]
  have "of_int 1000 \<le> roundDouble (1000 + roundDouble (mathRandom w * 9000))"
    and "roundDouble (1000 + roundDouble (mathRandom w * 9000)) < of_int 10000"
    by simp_all
  then show ?thesis
    unfolding randomNum_def by (simp only: le_floor_iff floor_less_iff [symmetric]) simp
qed

lemma natToString_four:
  assumes "1000 \<le> n" "n \<le> 9999"
  shows "natToString n =
           [digitChar (n div 1000), digitChar (n div 100 mod 10), digitChar (n div 10 mod 10),
            digitChar (n mod 10)]"
proof -
  have n0: "\<not> n < 10"
    using assms by arith
  have n1: "\<not> n div 10 < 10"
    using assms by arith
  have n2: "\<not> n div 10 div 10 < 10"
    using assms by arith
  have n3: "n div 10 div 10 div 10 < 10"
    using assms by arith
  have a: "natToString n = natToString (n div 10) @ [digitChar (n mod 10)]"
    using n0 natToString.simps [of n] by simp
  have b: "natToString (n div 10) = natToString (n div 10 div 10) @ [digitChar (n div 10 mod 10)]"
    using n1 natToString.simps [of "n div 10"] by simp
  have c: "natToString (n div 10 div 10)
             = natToString (n div 10 div 10 div 10) @ [digitChar (n div 10 div 10 mod 10)]"
    using n2 natToString.simps [of "n div 10 div 10"] by simp
  have d: "natToString (n div 10 div 10 div 10) = [digitChar (n div 10 div 10 div 10)]"
    using n3 natToString.simps [of "n div 10 div 10 div 10"] by simp
  show ?thesis
    unfolding a b c d by (simp add: div_mult2_eq [symmetric])
qed

lemma isDigit_digitChar: "isDigit (digitChar d)"
proof -
  have "d mod 10 < length ''0123456789''" by simp
  then have "''0123456789'' ! (d mod 10) \<in> set ''0123456789''"
    by (rule nth_mem)
  then show ?thesis
    unfolding isDigit_def digitChar_def .
qed

lemma randomNum_digits:
  assumes "isDouble (mathRandom w)" "0 \<le> mathRandom w" "mathRandom w < 1"
  shows "length (intToString (randomNum w)) = 4 \<and> list_all isDigit (intToString (randomNum w))"
proof -
  from randomNum_range [OF assms] have r: "1000 \<le> randomNum w" "randomNum w \<le> 9999" by simp_all
  then have n: "1000 \<le> nat (randomNum w)" "nat (randomNum w) \<le> 9999" by simp_all
  have eq: "intToString (randomNum w) = natToString (nat (randomNum w))"
    using r by (simp add: intToString_def)
  show ?thesis
    unfolding eq natToString_four [OF n] by (simp add: isDigit_digitChar)
qed

lemma month_part:
  "toLowerCase (monthShort m)
     \<in> set [''jan'', ''feb'', ''mar'', ''apr'', ''may'', ''jun'', ''jul'', ''aug'', ''sep'', ''oct'', ''nov'', ''dec'']"
  by (cases m) (simp_all add: toLowerCase_def)

lemma month_part_shape:
  "length (toLowerCase (monthShort m)) = 3 \<and> list_all isLowerLetter (toLowerCase (monthShort m))"
  by (cases m) (simp_all add: toLowerCase_def isLowerLetter_def)

lemma substring_from_2: "substring s 2 (2 + n) = take n (drop 2 s)"
  by (simp add: substring_def Let_def min_def max_def)

lemma random_suffix:
  "substring (mathRandom36 w) 2 (2 + n) = map digit36 (take n (random36Digits w))"
  unfolding substring_from_2 by (simp add: mathRandom36_def take_map)

lemma isBase36_digit36: "isBase36 (digit36 d)"
proof -
  have "d mod 36 < length ''0123456789abcdefghijklmnopqrstuvwxyz''" by simp
  then have "''0123456789abcdefghijklmnopqrstuvwxyz'' ! (d mod 36)
               \<in> set ''0123456789abcdefghijklmnopqrstuvwxyz''"
    by (rule nth_mem)
  then show ?thesis
    unfolding isBase36_def digit36_def .
qed

lemma toUpperCase_base36: "list_all isBase36 s \<Longrightarrow> list_all isUpperBase36 (toUpperCase s)"
  by (induction s) (auto simp: toUpperCase_def isBase36_def isUpperBase36_def)

lemma length_toUpperCase: "length (toUpperCase s) = length s"
  by (simp add: toUpperCase_def)

lemma printed_digits_upper: "list_all isUpperBase36 (toUpperCase (map digit36 ds))"
  by (rule toUpperCase_base36) (simp add: list_all_iff isBase36_digit36)

text \<open>
  Claim C7, as stated, fails for product and technician identifiers. The double 0.5
  is exactly \<^verbatim>\<open>0.i\<close> in base 36 (the digit \<^verbatim>\<open>i\<close> is 18, and 18/36 = 1/2), so
  \<^verbatim>\<open>toString(36)\<close> prints one digit after the point, \<^verbatim>\<open>substring(2, 10)\<close> has one
  character and the identifiers are \<^verbatim>\<open>PROD-I\<close> and \<^verbatim>\<open>TECH-I\<close>, not a prefix followed
  by 8 or 6 characters.
\<close>

theorem generated_ids_counterexample:
  "mathRandom seedWorld = 1 / 2
   \<and> isDouble (mathRandom seedWorld)
   \<and> base36Value (random36Digits seedWorld) = mathRandom seedWorld
   \<and> mathRandom36 seedWorld = ''0.i''
   \<and> newProductId seedWorld = ''PROD-I''
   \<and> newTechId seedWorld = ''TECH-I''
   \<and> length (newProductId seedWorld) = 6
   \<and> length (newTechId seedWorld) = 6"
proof -
  have "isDouble (1 / 2)" using double_half by simp
  then show ?thesis
    by (simp add: seedWorld_def mathRandom36_def digit36_def base36Value_def newProductId_def
        newTechId_def substring_def toUpperCase_def)
qed

text \<open>
  Claim C7, amended. With \<^verbatim>\<open>Math.random()\<close> a double in \<open>[0, 1)\<close> and the arithmetic
  done in doubles: the repair identifier is the lower-cased three-letter month
  abbreviation followed by the four decimal digits of an integer from 1000 to 9999.
  The product identifier is \<^verbatim>\<open>PROD-\<close> followed by the first 8 base-36 digits that
  \<^verbatim>\<open>toString(36)\<close> prints after the point, in upper case: upper-case base-36
  characters, at most 8 of them, and exactly 8 iff at least 8 digits are printed. The
  technician identifier is the same with \<^verbatim>\<open>TECH-\<close> and 6.
\<close>

theorem generated_ids:
  assumes "isDouble (mathRandom w)" and "0 \<le> mathRandom w" and "mathRandom w < 1"
  shows "newRepairId w = toLowerCase (monthShort (today w)) @ intToString (randomNum w)
    \<and> toLowerCase (monthShort (today w))
         \<in> set [''jan'', ''feb'', ''mar'', ''apr'', ''may'', ''jun'', ''jul'', ''aug'', ''sep'', ''oct'', ''nov'', ''dec'']
    \<and> length (toLowerCase (monthShort (today w))) = 3
    \<and> list_all isLowerLetter (toLowerCase (monthShort (today w)))
    \<and> 1000 \<le> randomNum w \<and> randomNum w \<le> 9999
    \<and> length (intToString (randomNum w)) = 4
    \<and> list_all isDigit (intToString (randomNum w))
    \<and> newProductId w = ''PROD-'' @ toUpperCase (map digit36 (take 8 (random36Digits w)))
    \<and> list_all isUpperBase36 (toUpperCase (map digit36 (take 8 (random36Digits w))))
    \<and> length (toUpperCase (map digit36 (take 8 (random36Digits w)))) \<le> 8
    \<and> (length (toUpperCase (map digit36 (take 8 (random36Digits w)))) = 8
          \<longleftrightarrow> 8 \<le> length (random36Digits w))
    \<and> newTechId w = ''TECH-'' @ toUpperCase (map digit36 (take 6 (random36Digits w)))
    \<and> list_all isUpperBase36 (toUpperCase (map digit36 (take 6 (random36Digits w))))
    \<and> length (toUpperCase (map digit36 (take 6 (random36Digits w)))) \<le> 6
    \<and> (length (toUpperCase (map digit36 (take 6 (random36Digits w)))) = 6
          \<longleftrightarrow> 6 \<le> length (random36Digits w))"
proof -
  have sub8: "substring (mathRandom36 w) 2 10 = map digit36 (take 8 (random36Digits w))"
    using random_suffix [of w 8] by simp
  have sub6: "substring (mathRandom36 w) 2 8 = map digit36 (take 6 (random36Digits w))"
    using random_suffix [of w 6] by simp
  have len8: "length (toUpperCase (map digit36 (take 8 (random36Digits w)))) \<le> 8
      \<and> (length (toUpperCase (map digit36 (take 8 (random36Digits w)))) = 8
            \<longleftrightarrow> 8 \<le> length (random36Digits w))"
    unfolding length_toUpperCase by auto
  have len6: "length (toUpperCase (map digit36 (take 6 (random36Digits w)))) \<le> 6
      \<and> (length (toUpperCase (map digit36 (take 6 (random36Digits w)))) = 6
            \<longleftrightarrow> 6 \<le> length (random36Digits w))"
    unfolding length_toUpperCase by auto
  show ?thesis
    using randomNum_range [OF assms] randomNum_digits [OF assms]
      month_part [of "today w"] month_part_shape [of "today w"] len8 len6
      printed_digits_upper [of "take 8 (random36Digits w)"]
      printed_digits_upper [of "take 6 (random36Digits w)"]
    by (simp add: newRepairId_def newProductId_def newTechId_def sub8 sub6 del: set_simps)
qed

theorem generated_ids_witness:
  "isDouble (mathRandom longWorld) \<and> 0 \<le> mathRandom longWorld \<and> mathRandom longWorld < 1
   \<and> base36Value (random36Digits longWorld) = mathRandom longWorld
   \<and> mathRandom36 longWorld = ''0.000pmn29''
   \<and> newRepairId longWorld = ''sep1000''
   \<and> newProductId longWorld = ''PROD-000PMN29''
   \<and> newTechId longWorld = ''TECH-000PMN''
   \<and> randomNum seedWorld = 5500"
proof -
  have d: "isDouble (mathRandom longWorld)"
    using double_small by (simp add: longWorld_def)
  have h: "0 \<le> mathRandom longWorld" "mathRandom longWorld < 1"
    by (simp_all add: longWorld_def)
  have r: "randomNum longWorld = 1000" "randomNum seedWorld = 5500"
    using double_small double_half by (simp_all add: randomNum_def longWorld_def seedWorld_def)
  have n: "natToString 1000 = ''1000''"
    using natToString_four [of 1000] by (simp add: digitChar_def)
  show ?thesis
    using generated_ids [OF d h] d h r n
    by (simp add: longWorld_def mathRandom36_def digit36_def base36Value_def intToString_def
        toLowerCase_def toUpperCase_def)
qed

end
